theory Spec2Isabelle
  imports Complex_Main "HOL-Library.AList"
begin

section \<open>Python values used by the scraper\<close>

text \<open>
  Exceptions are values. \<open>KeyError\<close> is what indexing a \<^verbatim>\<open>dict\<close> with a missing key
  raises; \<open>LibraryError\<close> stands for any other \<^verbatim>\<open>Exception\<close> raised by a library call
  (aiohttp, BeautifulSoup) and carries its \<^verbatim>\<open>str(e)\<close>.
\<close>

datatype exn = KeyError string | LibraryError string

text \<open>\<^verbatim>\<open>str(e)\<close>: for a \<^verbatim>\<open>KeyError\<close> it is the \<^verbatim>\<open>repr\<close> of the key, the key between
  single quotes (for keys without quotes or escapes, as the selector names are).\<close>

fun str_exn :: "exn \<Rightarrow> string" where
  "str_exn (KeyError k) = [CHR 0x27] @ k @ [CHR 0x27]"
| "str_exn (LibraryError m) = m"

text \<open>Truthiness of an \<^verbatim>\<open>Optional[str]\<close>: \<^verbatim>\<open>None\<close> and \<^verbatim>\<open>''\<close> are false.\<close>

fun truthy :: "string option \<Rightarrow> bool" where
  "truthy None = False"
| "truthy (Some s) = (s \<noteq> [])"

text \<open>\<^verbatim>\<open>a or b\<close> on optional strings.\<close>

definition py_or :: "string option \<Rightarrow> string option \<Rightarrow> string option" where
  "py_or a b = (if truthy a then a else b)"

text \<open>\<^verbatim>\<open>s.startswith(p)\<close> and \<^verbatim>\<open>sub in s\<close>.\<close>

fun startswith :: "string \<Rightarrow> string \<Rightarrow> bool" where
  "startswith s [] = True"
| "startswith [] (p # ps) = False"
| "startswith (c # cs) (p # ps) = (c = p \<and> startswith cs ps)"

fun contains :: "string \<Rightarrow> string \<Rightarrow> bool" where
  "contains sub [] = (sub = [])"
| "contains sub (c # cs) = (startswith (c # cs) sub \<or> contains sub cs)"

text \<open>\<^verbatim>\<open>str(n)\<close> for a non-negative integer: its decimal digits.\<close>

definition digit :: "nat \<Rightarrow> char" where
  "digit d = ''0123456789'' ! d"

function str_nat :: "nat \<Rightarrow> string" where
  "str_nat n = (if n < 10 then [digit n] else str_nat (n div 10) @ [digit (n mod 10)])"
  by pat_completeness auto
termination
  by (relation "measure id") auto

definition str_int :: "int \<Rightarrow> string" where
  "str_int i = (if i < 0 then CHR ''-'' # str_nat (nat (- i)) else str_nat (nat i))"

section \<open>Configuration (config.py)\<close>

text \<open>
  \<^verbatim>\<open>SiteConfig\<close> with all its fields; the two dictionaries are association lists in
  insertion order. Of \<^verbatim>\<open>ScraperConfig\<close> the fields that \<^verbatim>\<open>scraper.py\<close> reads in the
  functions below are kept (\<^verbatim>\<open>timeout\<close> and \<^verbatim>\<open>concurrent_requests\<close> only configure
  the HTTP session).
\<close>

record site_config =
  name :: string
  base_url :: string
  selectors :: "(string \<times> string) list"
  pagination_selector :: string
  category_params :: "(string \<times> string) list"

record scraper_config =
  max_pages :: int
  delay_between_requests :: real
  max_retries :: int
  output_format :: string
  output_directory :: string

section \<open>The outside world: network and HTML library\<close>

text \<open>
  Everything the scraper does to the outside is an event of a trace: a GET request, a
  suspension (\<^verbatim>\<open>asyncio.sleep\<close>) of some duration, and the writing of an output file.
\<close>

datatype event = Get string | Sleep real | WriteJson | WriteCsv

text \<open>
  What one \<^verbatim>\<open>session.get\<close> attempt does inside the \<^verbatim>\<open>try\<close> block of
  \<^verbatim>\<open>_fetch_page\<close>: it yields a response with a status and a body text, or an exception
  is raised (by the request, by the header generation or by reading the body).
\<close>

datatype reply = Http nat string | Raised exn

text \<open>
  A BeautifulSoup \<^verbatim>\<open>Tag\<close> is an object of the library; the scraper observes it only
  through \<^verbatim>\<open>get_text(strip=True)\<close>, \<^verbatim>\<open>str(tag)\<close>, \<^verbatim>\<open>tag.get(attr)\<close>,
  \<^verbatim>\<open>tag.select(css)\<close> / \<^verbatim>\<open>tag.select_one(css)\<close> and \<^verbatim>\<open>tag.find_all(name)\<close>. A tag is
  modelled by what these five observations return: its stripped text, its serialisation,
  its attributes, and for each CSS selector or tag name the list of matching descendants
  in document order (a selector or name that is not listed matches nothing). Attribute
  values are strings, and the five observations themselves do not raise; what can raise
  is the parser, the network, the file system, and a missing key of the selector
  dictionary (the two URL functions below are taken to return).
\<close>

datatype tag = Tag
  (get_text: string)
  (to_str: string)
  (attrs: "(string \<times> string) list")
  (selected: "(string \<times> tag list) list")
  (found: "(string \<times> tag list) list")

definition get_attr :: "tag \<Rightarrow> string \<Rightarrow> string option" where
  "get_attr t a = map_of (attrs t) a"

definition select :: "tag \<Rightarrow> string \<Rightarrow> tag list" where
  "select t css = (case map_of (selected t) css of None \<Rightarrow> [] | Some ts \<Rightarrow> ts)"

definition select_one :: "tag \<Rightarrow> string \<Rightarrow> tag option" where
  "select_one t css = (case select t css of [] \<Rightarrow> None | x # _ \<Rightarrow> Some x)"

definition find_all :: "tag \<Rightarrow> string \<Rightarrow> tag list" where
  "find_all t nm = (case map_of (found t) nm of None \<Rightarrow> [] | Some ts \<Rightarrow> ts)"

text \<open>
  The \<^verbatim>\<open>DataScraper\<close> object: its two configurations, and the capabilities it calls.
  \<open>session_get\<close> is the server as seen through \<^verbatim>\<open>self.session.get\<close>: its reply may
  depend on everything that happened before (the trace so far) and on the URL.
  \<open>BeautifulSoup\<close> parses a document (and may reject the markup), \<open>urljoin\<close> and
  \<open>urlencode\<close> are the functions of \<^verbatim>\<open>urllib.parse\<close>. \<open>write_file\<close> is the file system
  as the two save functions meet it: for an output directory and a file name, \<open>None\<close>
  when the file is opened and written, or the exception that \<^verbatim>\<open>open\<close> or the write
  raises. \<open>clock\<close> is what \<^verbatim>\<open>datetime.now().strftime("%Y%m%d_%H%M%S")\<close> reads when the
  results are saved.
\<close>

record scraper =
  site_config :: site_config
  scraper_config :: scraper_config
  session_get :: "event list \<Rightarrow> string \<Rightarrow> reply"
  BeautifulSoup :: "string \<Rightarrow> exn + tag"
  urljoin :: "string \<Rightarrow> string \<Rightarrow> string"
  urlencode :: "(string \<times> string) list \<Rightarrow> string"
  write_file :: "string \<Rightarrow> string \<Rightarrow> exn option"
  clock :: string

text \<open>The mutable part: \<^verbatim>\<open>self.errors\<close> and the trace of events so far.\<close>

record world =
  errors :: "string list"
  trace :: "event list"

definition emit :: "event \<Rightarrow> world \<Rightarrow> world" where
  "emit e w = w\<lparr>trace := trace w @ [e]\<rparr>"

definition append_error :: "string \<Rightarrow> world \<Rightarrow> world" where
  "append_error m w = w\<lparr>errors := errors w @ [m]\<rparr>"

section \<open>\<^verbatim>\<open>_fetch_page\<close>\<close>

text \<open>
  The \<^verbatim>\<open>for attempt in range(retries + 1)\<close> loop, as recursion over the attempt indices
  still to run. A 200 returns the body at once; a 429 sleeps \<open>2 ^ attempt\<close> and goes on;
  any other status only logs and goes on; an exception appends its message to
  \<^verbatim>\<open>self.errors\<close> on the last attempt and sleeps \<open>2 ^ attempt\<close> otherwise. Falling out
  of the loop returns \<^verbatim>\<open>None\<close>.
\<close>

fun fetch_loop :: "scraper \<Rightarrow> string \<Rightarrow> int \<Rightarrow> nat list \<Rightarrow> world \<Rightarrow> string option \<times> world" where
  "fetch_loop S url retries [] w = (None, w)"
| "fetch_loop S url retries (attempt # rest) w =
     (let w1 = emit (Get url) w in
      case session_get S (trace w) url of
        Http status content \<Rightarrow>
          if status = 200 then (Some content, w1)
          else if status = 429 then
            fetch_loop S url retries rest (emit (Sleep (2 ^ attempt)) w1)
          else fetch_loop S url retries rest w1
      | Raised e \<Rightarrow>
          (let error_msg = ''Attempt '' @ str_nat (attempt + 1) @ '' failed for '' @ url
                             @ '': '' @ str_exn e
           in if int attempt = retries
              then fetch_loop S url retries rest (append_error error_msg w1)
              else fetch_loop S url retries rest (emit (Sleep (2 ^ attempt)) w1)))"

definition fetch_page :: "scraper \<Rightarrow> string \<Rightarrow> int option \<Rightarrow> world \<Rightarrow> string option \<times> world" where
  "fetch_page S url retries w =
     (let r = (case retries of None \<Rightarrow> max_retries (scraper_config S) | Some r \<Rightarrow> r)
      in fetch_loop S url r [0..<nat (r + 1)] w)"

section \<open>Records (models.py)\<close>

text \<open>
  \<^verbatim>\<open>Book\<close> and \<^verbatim>\<open>ScrapingResult\<close>, without their wall-clock fields (\<^verbatim>\<open>scraped_at\<close>,
  \<^verbatim>\<open>scraping_started\<close>, \<^verbatim>\<open>scraping_completed\<close>).
\<close>

record book =
  title :: string
  author :: "string option"
  price :: "string option"
  image_url :: "string option"
  product_url :: "string option"
  availability :: "string option"
  category :: "string option"

record scraping_result =
  site_name :: string
  result_category :: string
  total_books :: int
  pages_scraped :: int
  books :: "book list"
  success :: bool
  result_errors :: "string list"

section \<open>\<^verbatim>\<open>_parse_book\<close>\<close>

text \<open>\<^verbatim>\<open>self.site_config.selectors[key]\<close>: a missing key raises \<^verbatim>\<open>KeyError\<close>.\<close>

definition selector :: "scraper \<Rightarrow> string \<Rightarrow> exn + string" where
  "selector S key =
     (case map_of (selectors (site_config S)) key of
        None \<Rightarrow> Inl (KeyError key)
      | Some css \<Rightarrow> Inr css)"

text \<open>Title and availability: the stripped text of the first match, or \<^verbatim>\<open>None\<close>.\<close>

definition extract_text :: "scraper \<Rightarrow> tag \<Rightarrow> string \<Rightarrow> exn + string option" where
  "extract_text S book_element key =
     (case selector S key of
        Inl e \<Rightarrow> Inl e
      | Inr css \<Rightarrow> Inr (map_option get_text (select_one book_element css)))"

text \<open>
  Author: the text of the first match; without a match, the text of the first link
  with non-empty text inside \<^verbatim>\<open>.product-author\<close>.
\<close>

definition extract_author :: "scraper \<Rightarrow> tag \<Rightarrow> exn + string option" where
  "extract_author S book_element =
     (case selector S ''author'' of
        Inl e \<Rightarrow> Inl e
      | Inr css \<Rightarrow>
          (case select_one book_element css of
             Some author_elem \<Rightarrow> Inr (Some (get_text author_elem))
           | None \<Rightarrow>
               (case select_one book_element ''.product-author'' of
                  None \<Rightarrow> Inr None
                | Some author_section \<Rightarrow>
                    Inr (map_option get_text
                          (find (\<lambda>link. get_text link \<noteq> []) (find_all author_section ''a''))))))"

text \<open>
  Price: the text of the first \<^verbatim>\<open>div\<close> below the price element whose text is not empty
  and contains \<^verbatim>\<open>Rp\<close> and whose serialisation does not contain
  \<^verbatim>\<open>text-decoration:line-through\<close>; when there is none (\<^verbatim>\<open>if not price\<close>), the text of
  the price element itself.
\<close>

definition line_through :: "tag \<Rightarrow> bool" where
  "line_through d \<longleftrightarrow> contains ''text-decoration:line-through'' (to_str d)"

definition current_price_div :: "tag \<Rightarrow> bool" where
  "current_price_div d \<longleftrightarrow>
     get_text d \<noteq> [] \<and> contains ''Rp'' (get_text d) \<and> \<not> line_through d"

definition extract_price :: "scraper \<Rightarrow> tag \<Rightarrow> exn + string option" where
  "extract_price S book_element =
     (case selector S ''price'' of
        Inl e \<Rightarrow> Inl e
      | Inr css \<Rightarrow>
          (case select_one book_element css of
             None \<Rightarrow> Inr None
           | Some price_elem \<Rightarrow>
               (let price = map_option get_text (find current_price_div (find_all price_elem ''div''))
                in if \<not> truthy price then Inr (Some (get_text price_elem)) else Inr price)))"

text \<open>
  Image and product URL: the attribute of the first match, resolved against the base
  URL when it is not empty and does not start with \<^verbatim>\<open>http\<close>.
\<close>

definition absolute :: "scraper \<Rightarrow> string option \<Rightarrow> string option" where
  "absolute S u =
     (case u of
        None \<Rightarrow> None
      | Some v \<Rightarrow>
          if v \<noteq> [] \<and> \<not> startswith v ''http''
          then Some (urljoin S (base_url (site_config S)) v) else Some v)"

definition extract_image :: "scraper \<Rightarrow> tag \<Rightarrow> exn + string option" where
  "extract_image S book_element =
     (case selector S ''image'' of
        Inl e \<Rightarrow> Inl e
      | Inr css \<Rightarrow>
          (case select_one book_element css of
             None \<Rightarrow> Inr None
           | Some image_elem \<Rightarrow>
               Inr (absolute S (py_or (get_attr image_elem ''src'') (get_attr image_elem ''data-src'')))))"

definition extract_link :: "scraper \<Rightarrow> tag \<Rightarrow> exn + string option" where
  "extract_link S book_element =
     (case selector S ''link'' of
        Inl e \<Rightarrow> Inl e
      | Inr css \<Rightarrow>
          (case select_one book_element css of
             None \<Rightarrow> Inr None
           | Some link_elem \<Rightarrow> Inr (absolute S (get_attr link_elem ''href''))))"

text \<open>
  The body of the \<^verbatim>\<open>try\<close> block: the six extractions in the order of the source (the
  first exception ends the block), then the book when the title is truthy.
\<close>

definition parse_book_try :: "scraper \<Rightarrow> tag \<Rightarrow> string \<Rightarrow> exn + book option" where
  "parse_book_try S book_element cat =
     (case extract_text S book_element ''title'' of Inl e \<Rightarrow> Inl e | Inr title' \<Rightarrow>
      case extract_author S book_element of Inl e \<Rightarrow> Inl e | Inr author' \<Rightarrow>
      case extract_price S book_element of Inl e \<Rightarrow> Inl e | Inr price' \<Rightarrow>
      case extract_image S book_element of Inl e \<Rightarrow> Inl e | Inr image_url' \<Rightarrow>
      case extract_link S book_element of Inl e \<Rightarrow> Inl e | Inr product_url' \<Rightarrow>
      case extract_text S book_element ''availability'' of Inl e \<Rightarrow> Inl e | Inr availability' \<Rightarrow>
        if truthy title'
        then Inr (Some \<lparr>title = the title', author = author', price = price',
                         image_url = image_url', product_url = product_url',
                         availability = availability', category = Some cat\<rparr>)
        else Inr None)"

text \<open>\<^verbatim>\<open>_parse_book\<close>: an exception of the block is appended to \<^verbatim>\<open>self.errors\<close> and
  the result is \<^verbatim>\<open>None\<close>.\<close>

definition parse_book :: "scraper \<Rightarrow> tag \<Rightarrow> string \<Rightarrow> world \<Rightarrow> book option \<times> world" where
  "parse_book S book_element cat w =
     (case parse_book_try S book_element cat of
        Inl e \<Rightarrow> (None, append_error (''Error parsing book: '' @ str_exn e) w)
      | Inr b \<Rightarrow> (b, w))"

section \<open>\<^verbatim>\<open>_parse_page\<close>\<close>

text \<open>An element is an actual product when its first link has a truthy \<^verbatim>\<open>href\<close> that
  contains \<^verbatim>\<open>/p/\<close>.\<close>

definition actual_book :: "tag \<Rightarrow> bool" where
  "actual_book element =
     (case select_one element ''a'' of
        None \<Rightarrow> False
      | Some link \<Rightarrow> truthy (get_attr link ''href'') \<and> contains ''/p/'' (the (get_attr link ''href'')))"

text \<open>The loop over the actual books: every parsed book is appended, in order.\<close>

fun parse_books :: "scraper \<Rightarrow> tag list \<Rightarrow> string \<Rightarrow> book list \<Rightarrow> world \<Rightarrow> book list \<times> world" where
  "parse_books S [] cat books' w = (books', w)"
| "parse_books S (book_element # rest) cat books' w =
     (case parse_book S book_element cat w of
        (None, w1) \<Rightarrow> parse_books S rest cat books' w1
      | (Some b, w1) \<Rightarrow> parse_books S rest cat (books' @ [b]) w1)"

definition parse_page :: "scraper \<Rightarrow> string \<Rightarrow> string \<Rightarrow> world \<Rightarrow> (exn + book list) \<times> world" where
  "parse_page S html_content cat w =
     (case BeautifulSoup S html_content of
        Inl e \<Rightarrow> (Inl e, w)
      | Inr soup \<Rightarrow>
          (case selector S ''product_container'' of
             Inl e \<Rightarrow> (Inl e, w)
           | Inr css \<Rightarrow>
               (let actual_books = filter actual_book (select soup css);
                    (books', w1) = parse_books S actual_books cat [] w
                in (Inr books', w1))))"

section \<open>\<^verbatim>\<open>_get_next_page_url\<close> and \<^verbatim>\<open>_build_category_url\<close>\<close>

definition get_next_page_url :: "scraper \<Rightarrow> string \<Rightarrow> string \<Rightarrow> exn + string option" where
  "get_next_page_url S html_content current_url =
     (case BeautifulSoup S html_content of
        Inl e \<Rightarrow> Inl e
      | Inr soup \<Rightarrow>
          (case select_one soup (pagination_selector (site_config S)) of
             None \<Rightarrow> Inr None
           | Some next_link \<Rightarrow>
               (case get_attr next_link ''href'' of
                  None \<Rightarrow> Inr None
                | Some next_url \<Rightarrow>
                    if next_url \<noteq> []
                    then (if \<not> startswith next_url ''http''
                          then Inr (Some (urljoin S (base_url (site_config S)) next_url))
                          else Inr (Some next_url))
                    else Inr None)))"

definition build_category_url :: "scraper \<Rightarrow> string \<Rightarrow> int \<Rightarrow> string" where
  "build_category_url S category_param page =
     (let params = [(''route'', ''product/category''), (''anl'', category_param)];
          params = (if page > 1 then params @ [(''page'', str_int page)] else params)
      in base_url (site_config S) @ ''?'' @ urlencode S params)"

section \<open>\<^verbatim>\<open>scrape_category\<close>\<close>

text \<open>
  The \<^verbatim>\<open>while current_page <= max_pages\<close> loop. Each \<^verbatim>\<open>break\<close> returns the books
  accumulated so far; an exception of \<^verbatim>\<open>_parse_page\<close> or \<^verbatim>\<open>_get_next_page_url\<close> leaves
  the function. After \<^verbatim>\<open>current_page += 1\<close> the loop sleeps the configured delay, when it
  is positive, and then tests its condition again.
\<close>

function scrape_pages ::
  "scraper \<Rightarrow> string \<Rightarrow> string \<Rightarrow> int \<Rightarrow> int \<Rightarrow> book list \<Rightarrow> world \<Rightarrow> (exn + book list) \<times> world"
where
  "scrape_pages S category_name category_param max_pages' current_page books' w =
     (if current_page \<le> max_pages' then
        (let url = build_category_url S category_param current_page;
             (html_content, w1) = fetch_page S url None w
         in if \<not> truthy html_content then (Inr books', w1)
            else
              (case parse_page S (the html_content) category_name w1 of
                 (Inl e, w2) \<Rightarrow> (Inl e, w2)
               | (Inr page_books, w2) \<Rightarrow>
                   if page_books = [] then (Inr books', w2)
                   else
                     (case get_next_page_url S (the html_content) url of
                        Inl e \<Rightarrow> (Inl e, w2)
                      | Inr next_url \<Rightarrow>
                          if \<not> truthy next_url then (Inr (books' @ page_books), w2)
                          else scrape_pages S category_name category_param max_pages'
                                 (current_page + 1) (books' @ page_books)
                                 (if delay_between_requests (scraper_config S) > 0
                                  then emit (Sleep (delay_between_requests (scraper_config S))) w2
                                  else w2))))
      else (Inr books', w))"
  by pat_completeness auto
termination
  by (relation "measure (\<lambda>(S, category_name, category_param, max_pages', current_page, books', w).
                           nat (max_pages' + 1 - current_page))") auto

declare scrape_pages.simps [simp del]

definition scrape_category ::
  "scraper \<Rightarrow> string \<Rightarrow> string \<Rightarrow> int option \<Rightarrow> world \<Rightarrow> (exn + book list) \<times> world"
where
  "scrape_category S category_name category_param max_pages' w =
     scrape_pages S category_name category_param
       (case max_pages' of None \<Rightarrow> max_pages (scraper_config S) | Some m \<Rightarrow> m) 1 [] w"

section \<open>\<^verbatim>\<open>scrape_multiple_categories\<close>\<close>

text \<open>
  The input dictionary is the list of its items in insertion order. The first loop
  builds one coroutine per category, which runs only when it is awaited: a suspended
  computation on the world. The second loop awaits them in order; \<^verbatim>\<open>results[name] = v\<close>
  is the update of an ordered dictionary.
\<close>

type_synonym task = "world \<Rightarrow> (exn + book list) \<times> world"

fun await_tasks ::
  "(string \<times> task) list \<Rightarrow> (string \<times> book list) list \<Rightarrow> world \<Rightarrow> (string \<times> book list) list \<times> world"
where
  "await_tasks [] results w = (results, w)"
| "await_tasks ((category_name, task) # rest) results w =
     (case task w of
        (Inr books', w1) \<Rightarrow> await_tasks rest (AList.update category_name books' results) w1
      | (Inl e, w1) \<Rightarrow>
          await_tasks rest (AList.update category_name [] results)
            (append_error (''Error scraping category '' @ category_name @ '': '' @ str_exn e) w1))"

definition scrape_multiple_categories ::
  "scraper \<Rightarrow> (string \<times> string) list \<Rightarrow> int option \<Rightarrow> world \<Rightarrow> (string \<times> book list) list \<times> world"
where
  "scrape_multiple_categories S categories max_pages' w =
     (let tasks = map (\<lambda>(category_name, category_param).
                         (category_name, scrape_category S category_name category_param max_pages'))
                      categories
      in await_tasks tasks [] w)"

section \<open>\<^verbatim>\<open>save_results\<close> and \<^verbatim>\<open>run_scraper\<close>\<close>

text \<open>
  The two save functions return \<open>None\<close> when they return, or the exception that leaves
  them. A file that is written is an event. \<^verbatim>\<open>_save_to_csv\<close> returns before touching
  the file system when there is no book.
\<close>

definition save_to_json :: "scraper \<Rightarrow> string \<Rightarrow> world \<Rightarrow> exn option \<times> world" where
  "save_to_json S filename w =
     (case write_file S (output_directory (scraper_config S)) filename of
        Some e \<Rightarrow> (Some e, w)
      | None \<Rightarrow> (None, emit WriteJson w))"

definition save_to_csv :: "scraper \<Rightarrow> book list \<Rightarrow> string \<Rightarrow> world \<Rightarrow> exn option \<times> world" where
  "save_to_csv S books' filename w =
     (if books' = [] then (None, w)
      else
        (case write_file S (output_directory (scraper_config S)) filename of
           Some e \<Rightarrow> (Some e, w)
         | None \<Rightarrow> (None, emit WriteCsv w)))"

text \<open>\<^verbatim>\<open>save_results\<close>: the JSON file first, then the CSV file; an exception of the first
  leaves the function before the second is tried.\<close>

definition save_results :: "scraper \<Rightarrow> scraping_result \<Rightarrow> world \<Rightarrow> exn option \<times> world" where
  "save_results S result w =
     (let base_filename = site_name result @ ''_'' @ result_category result @ ''_'' @ clock S;
          fmt = output_format (scraper_config S)
      in case (if fmt \<in> set [''json'', ''both'']
               then save_to_json S (base_filename @ ''.json'') w else (None, w)) of
           (Some e, w1) \<Rightarrow> (Some e, w1)
         | (None, w1) \<Rightarrow>
             if fmt \<in> set [''csv'', ''both'']
             then save_to_csv S (books result) (base_filename @ ''.csv'') w1
             else (None, w1))"

text \<open>\<^verbatim>\<open>max_pages or self.scraper_config.max_pages\<close>: \<^verbatim>\<open>None\<close> and \<^verbatim>\<open>0\<close> are false.\<close>

definition requested_max_pages :: "scraper \<Rightarrow> int option \<Rightarrow> int" where
  "requested_max_pages S max_pages' =
     (case max_pages' of
        None \<Rightarrow> max_pages (scraper_config S)
      | Some m \<Rightarrow> if m \<noteq> 0 then m else max_pages (scraper_config S))"

text \<open>\<^verbatim>\<open>run_scraper\<close>: the walk, the result object, then \<^verbatim>\<open>save_results\<close>, outside any
  \<^verbatim>\<open>try\<close>: an exception of the walk or of the saving leaves the function, and no result
  is returned.\<close>

definition run_scraper ::
  "scraper \<Rightarrow> string \<Rightarrow> int option \<Rightarrow> world \<Rightarrow> (exn + scraping_result) \<times> world"
where
  "run_scraper S category_name max_pages' w =
     (let category_param =
            (case map_of (category_params (site_config S)) category_name of
               Some p \<Rightarrow> p
             | None \<Rightarrow> category_name)
      in case scrape_category S category_name category_param max_pages' w of
           (Inl e, w1) \<Rightarrow> (Inl e, w1)
         | (Inr books', w1) \<Rightarrow>
             (let result =
                    \<lparr>site_name = name (site_config S),
                     result_category = category_name,
                     total_books = int (length books'),
                     pages_scraped =
                       min (requested_max_pages S max_pages')
                           (if books' \<noteq> [] then int (length books') div 20 + 1 else 1),
                     books = books',
                     success = (length books' > 0),
                     result_errors = errors w1\<rparr>
              in case save_results S result w1 of
                   (Some e, w2) \<Rightarrow> (Inl e, w2)
                 | (None, w2) \<Rightarrow> (Inr result, w2)))"

section \<open>Concrete sites for the examples\<close>

text \<open>
  The configuration of \<^verbatim>\<open>config.py\<close> (\<^verbatim>\<open>PERIPLUS_CONFIG\<close>), and a scraper around a given
  server, parser and delay, with the default limits of \<^verbatim>\<open>ScraperConfig\<close>. The two URL
  functions are given for the URLs of this site: relative references are absolute paths,
  and the only character of the query that needs quoting is the slash. The output
  directory exists and has no subdirectory: a file name with a slash in it cannot be
  opened there, every other one is written.
\<close>

definition dq :: string where
  "dq = [CHR 0x22]"

definition sq :: string where
  "sq = [CHR 0x27]"

definition PERIPLUS_CONFIG :: site_config where
  "PERIPLUS_CONFIG =
     \<lparr>name = ''periplus'',
      base_url = ''https://www.periplus.com/index.php'',
      selectors =
        [(''product_container'', ''div.single-product''),
         (''title'', ''h3 a''),
         (''author'', ''.product-author a''),
         (''price'', ''.product-price''),
         (''image'', ''.product-img img.default-img''),
         (''link'', ''h3 a''),
         (''availability'', ''.product-binding'')],
      pagination_selector = ''ul.pagination li a[rel='' @ sq @ ''next'' @ sq @ '']'',
      category_params =
        [(''new_releases'', ''103''), (''bestsellers'', ''104''), (''featured'', ''105'')]\<rparr>"

definition quote_plus :: "string \<Rightarrow> string" where
  "quote_plus s = concat (map (\<lambda>c. if c = CHR ''/'' then ''%2F'' else [c]) s)"

fun join_amp :: "string list \<Rightarrow> string" where
  "join_amp [] = []"
| "join_amp [x] = x"
| "join_amp (x # y # ys) = x @ ''&'' @ join_amp (y # ys)"

definition site_urlencode :: "(string \<times> string) list \<Rightarrow> string" where
  "site_urlencode ps = join_amp (map (\<lambda>(k, v). quote_plus k @ ''='' @ quote_plus v) ps)"

definition site_urljoin :: "string \<Rightarrow> string \<Rightarrow> string" where
  "site_urljoin base u = ''https://www.periplus.com'' @ u"

definition site_write_file :: "string \<Rightarrow> string \<Rightarrow> exn option" where
  "site_write_file directory filename =
     (if CHR ''/'' \<in> set filename
      then Some (LibraryError ''[Errno 2] No such file or directory'')
      else None)"

definition site :: "(event list \<Rightarrow> string \<Rightarrow> reply) \<Rightarrow> (string \<Rightarrow> exn + tag) \<Rightarrow> real \<Rightarrow> scraper" where
  "site server parser delay =
     \<lparr>site_config = PERIPLUS_CONFIG,
      scraper_config =
        \<lparr>max_pages = 5, delay_between_requests = delay, max_retries = 3,
         output_format = ''json'', output_directory = ''output''\<rparr>,
      session_get = server,
      BeautifulSoup = parser,
      urljoin = site_urljoin,
      urlencode = site_urlencode,
      write_file = site_write_file,
      clock = ''20250101_120000''\<rparr>"

definition w0 :: world where
  "w0 = \<lparr>errors = [], trace = []\<rparr>"

definition page1_url :: string where
  "page1_url = ''https://www.periplus.com/index.php?route=product%2Fcategory&anl=103''"

definition page2_url :: string where
  "page2_url = ''https://www.periplus.com/index.php?route=product%2Fcategory&anl=103&page=2''"

text \<open>
  Elements. A text element has only text below it; a container has element children,
  its text and serialisation are those of the children put together, and its two tables
  say what the queries made by the scraper find below it.
\<close>

definition show_attrs :: "(string \<times> string) list \<Rightarrow> string" where
  "show_attrs as = concat (map (\<lambda>(k, v). '' '' @ k @ ''='' @ dq @ v @ dq) as)"

definition text_element :: "string \<Rightarrow> (string \<times> string) list \<Rightarrow> string \<Rightarrow> tag" where
  "text_element nm as txt =
     Tag txt (''<'' @ nm @ show_attrs as @ ''>'' @ txt @ ''</'' @ nm @ ''>'') as [] []"

definition container ::
  "string \<Rightarrow> (string \<times> string) list \<Rightarrow> tag list \<Rightarrow> (string \<times> tag list) list \<Rightarrow>
   (string \<times> tag list) list \<Rightarrow> tag"
where
  "container nm as children sel fnd =
     Tag (concat (map get_text children))
         (''<'' @ nm @ show_attrs as @ ''>'' @ concat (map to_str children) @ ''</'' @ nm @ ''>'')
         as sel fnd"

text \<open>A price box with its \<^verbatim>\<open>div\<close> children, a struck-through and a plain price.\<close>

definition price_box :: "tag list \<Rightarrow> tag" where
  "price_box divs = container ''div'' [(''class'', ''product-price'')] divs [] [(''div'', divs)]"

definition struck :: "string \<Rightarrow> tag" where
  "struck txt = text_element ''div'' [(''style'', ''text-decoration:line-through'')] txt"

definition plain :: "string \<Rightarrow> tag" where
  "plain txt = text_element ''div'' [] txt"

text \<open>
  A product: \<^verbatim>\<open><div class="single-product"><h3><a href=...>title</a></h3>box</div>\<close>.
  A product without a title has no \<^verbatim>\<open>h3\<close>, only an image link.
\<close>

definition product :: "string \<Rightarrow> string \<Rightarrow> tag \<Rightarrow> tag" where
  "product ttl href box =
     (let a = text_element ''a'' [(''href'', href)] ttl;
          h3 = container ''h3'' [] [a] [(''a'', [a])] [(''a'', [a])]
      in container ''div'' [(''class'', ''single-product'')] [h3, box]
           [(''a'', [a]), (''h3 a'', [a]), (''.product-price'', [box])]
           [(''a'', [a]), (''h3'', [h3]), (''div'', box # find_all box ''div'')])"

definition untitled_product :: "string \<Rightarrow> tag \<Rightarrow> tag" where
  "untitled_product href box =
     (let a = text_element ''a'' [(''href'', href)] []
      in container ''div'' [(''class'', ''single-product'')] [a, box]
           [(''a'', [a]), (''.product-price'', [box])]
           [(''a'', [a]), (''div'', box # find_all box ''div'')])"

definition next_link :: "string \<Rightarrow> tag" where
  "next_link href = text_element ''a'' [(''href'', href), (''rel'', ''next'')] ''>''"

definition listing :: "tag list \<Rightarrow> tag list \<Rightarrow> tag" where
  "listing products nexts =
     container ''html'' [] (products @ nexts)
       [(''div.single-product'', products),
        (pagination_selector PERIPLUS_CONFIG, nexts)] []"

definition book_one :: tag where
  "book_one = product ''Book One'' ''/p/1/book-one''
                (price_box [struck ''Rp 150,000'', plain ''Rp 120,000''])"

definition book_two :: tag where
  "book_two = product ''Book Two'' ''/p/2/book-two'' (price_box [plain ''Rp 90,000''])"

definition to_page_two :: tag where
  "to_page_two = next_link ''/index.php?route=product/category&anl=103&page=2''"

definition book_three :: tag where
  "book_three = product ''Book Three'' ''/p/3/book-three''
                  (text_element ''div'' [(''class'', ''product-price'')] ''Rp 75,000'')"

text \<open>A book priced in another currency.\<close>

definition usd_box :: tag where
  "usd_box = price_box [struck ''USD 15'', plain ''USD 10'']"

definition book_usd :: tag where
  "book_usd = product ''Book Four'' ''/p/4/book-four'' usd_box"

text \<open>The sites: one that refuses every connection, one that answers 500, one that
  answers 429.\<close>

definition site_down :: scraper where
  "site_down = site (\<lambda>h u. Raised (LibraryError ''Connection refused'')) (\<lambda>html. Inr (listing [] [])) 1"

definition site_500 :: scraper where
  "site_500 = site (\<lambda>h u. Http 500 ''Internal Server Error'') (\<lambda>html. Inr (listing [] [])) 1"

definition site_429 :: scraper where
  "site_429 = site (\<lambda>h u. Http 429 ''Too Many Requests'') (\<lambda>html. Inr (listing [] [])) 1"

text \<open>A site whose every page shows one book and a link to a next page.\<close>

definition site_endless :: scraper where
  "site_endless = site (\<lambda>h u. Http 200 ''page'') (\<lambda>html. Inr (listing [book_one] [to_page_two])) 1"

text \<open>A site of two pages: page 1 shows a book and the link to page 2, page 2 shows a
  book and no link.\<close>

definition two_pages_server :: "event list \<Rightarrow> string \<Rightarrow> reply" where
  "two_pages_server h u = (if u = page2_url then Http 200 ''page 2'' else Http 200 ''page 1'')"

definition two_pages_parser :: "string \<Rightarrow> exn + tag" where
  "two_pages_parser html =
     (if html = ''page 2'' then Inr (listing [book_two] [])
      else Inr (listing [book_one] [to_page_two]))"

definition site_two_pages :: scraper where
  "site_two_pages = site two_pages_server two_pages_parser 1"

text \<open>A site whose page shows no product but a link to a next page.\<close>

definition site_empty :: scraper where
  "site_empty = site (\<lambda>h u. Http 200 ''page'') (\<lambda>html. Inr (listing [] [to_page_two])) 1"

text \<open>A site whose only page shows the same book twenty times and no link.\<close>

definition site_twenty :: scraper where
  "site_twenty = site (\<lambda>h u. Http 200 ''page'') (\<lambda>html. Inr (listing (replicate 20 book_two) [])) 1"

text \<open>A site whose markup for category \<^verbatim>\<open>a\<close> is rejected by the parser, while category
  \<^verbatim>\<open>b\<close> shows one book.\<close>

definition category_a_url :: string where
  "category_a_url = ''https://www.periplus.com/index.php?route=product%2Fcategory&anl=a''"

definition category_b_url :: string where
  "category_b_url = ''https://www.periplus.com/index.php?route=product%2Fcategory&anl=b''"

definition site_mixed :: scraper where
  "site_mixed =
     site (\<lambda>h u. if u = category_a_url then Http 200 ''garbage'' else Http 200 ''page'')
          (\<lambda>html. if html = ''garbage'' then Inl (LibraryError ''markup rejected'')
                   else Inr (listing [book_two] []))
          0"

text \<open>The outcome of awaiting one task, as the second loop of
  \<^verbatim>\<open>scrape_multiple_categories\<close> records it.\<close>

definition settle :: "string \<Rightarrow> (exn + book list) \<times> world \<Rightarrow> book list \<times> world" where
  "settle category_name out =
     (case out of
        (Inr books', w1) \<Rightarrow> (books', w1)
      | (Inl e, w1) \<Rightarrow>
          ([], append_error (''Error scraping category '' @ category_name @ '': '' @ str_exn e) w1))"

text \<open>The page estimate in the words of the specification:
  \<open>min(requestedMaxPages, ceil(count / 20))\<close>, floored to at least 1.\<close>

definition spec_pages_estimate :: "int \<Rightarrow> nat \<Rightarrow> int" where
  "spec_pages_estimate requested n = max 1 (min requested ((int n + 19) div 20))"


section \<open>The fetcher\<close>

lemma fetch_loop_append:
  "fetch_loop S url r (xs @ ys) w =
     (case fetch_loop S url r xs w of
        (Some c, w1) \<Rightarrow> (Some c, w1)
      | (None, w1) \<Rightarrow> fetch_loop S url r ys w1)"
  by (induction xs arbitrary: w) (auto simp: Let_def split: reply.splits)

lemma attempts_last: "0 \<le> r \<Longrightarrow> [0..<nat (r + 1)] = [0..<nat r] @ [nat r]"
  by (simp add: nat_add_distrib)

lemma attempts_4: "[0..<4] = [0, 1, 2, Suc 2]"
  by (simp add: upt_rec)

lemma attempts_2: "[0..<2] = [0, Suc 0]"
  by (simp add: upt_rec)

lemma fetch_loop_other_status:
  assumes "\<And>h. \<exists>st b. session_get S h url = Http st b \<and> st \<noteq> 200 \<and> st \<noteq> 429"
  shows "fetch_loop S url r xs w = (None, w\<lparr>trace := trace w @ replicate (length xs) (Get url)\<rparr>)"
proof (induction xs arbitrary: w)
  case Nil
  show ?case by simp
next
  case (Cons a xs)
  obtain st b where "session_get S (trace w) url = Http st b" "st \<noteq> 200" "st \<noteq> 429"
    using assms by blast
  then show ?case
    by (simp add: Cons.IH emit_def replicate_app_Cons_same)
qed

lemma fetch_loop_rate_limited:
  assumes "\<And>h. \<exists>b. session_get S h url = Http 429 b"
  shows "fst (fetch_loop S url r xs w) = None \<and> errors (snd (fetch_loop S url r xs w)) = errors w"
proof (induction xs arbitrary: w)
  case Nil
  show ?case by simp
next
  case (Cons a xs)
  obtain b where "session_get S (trace w) url = Http 429 b"
    using assms by blast
  then show ?case
    by (simp add: Cons.IH emit_def)
qed

lemmas site_defs = site_def PERIPLUS_CONFIG_def site_urlencode_def site_urljoin_def quote_plus_def
  sq_def dq_def

text \<open>
  C3. With \<open>max_retries = 3\<close> (passed or configured) and a server on which every attempt
  raises, \<^verbatim>\<open>_fetch_page\<close> makes exactly four requests, sleeps 1, 2 and 4 after the first
  three, returns \<^verbatim>\<open>None\<close>, and appends exactly one message, that of the fourth attempt,
  to the error list.
\<close>

theorem fetch_page_transport_failures:
  assumes fail: "\<And>h. session_get S h url = Raised (f h)"
    and r: "(case retries of None \<Rightarrow> max_retries (scraper_config S) | Some r \<Rightarrow> r) = 3"
  shows "fetch_page S url retries w =
     (None, w\<lparr>errors := errors w @
                 [''Attempt 4 failed for '' @ url @ '': '' @
                  str_exn (f (trace w @ [Get url, Sleep 1, Get url, Sleep 2, Get url, Sleep 4]))],
              trace := trace w @ [Get url, Sleep 1, Get url, Sleep 2, Get url, Sleep 4, Get url]\<rparr>)"
  using r by (simp add: fetch_page_def attempts_4 fail emit_def append_error_def Let_def digit_def)

theorem fetch_page_transport_failures_witness:
  "(\<forall>h. session_get site_down h ''u'' = Raised (LibraryError ''Connection refused''))
   \<and> max_retries (scraper_config site_down) = 3
   \<and> fetch_page site_down ''u'' None w0 =
       (None, \<lparr>errors = [''Attempt 4 failed for u: Connection refused''],
               trace = [Get ''u'', Sleep 1, Get ''u'', Sleep 2, Get ''u'', Sleep 4, Get ''u'']\<rparr>)"
proof -
  have fail: "\<And>h. session_get site_down h ''u'' = Raised ((\<lambda>_. LibraryError ''Connection refused'') h)"
    by (simp add: site_down_def site_def)
  have r: "(case None of None \<Rightarrow> max_retries (scraper_config site_down) | Some r \<Rightarrow> r) = 3"
    by (simp add: site_down_def site_def)
  show ?thesis
    using fetch_page_transport_failures [OF fail r, of w0] fail r
    by (simp add: w0_def)
qed

text \<open>
  C10. When the last attempt (index \<open>max_retries\<close>) is reached and answered by 429,
  \<^verbatim>\<open>_fetch_page\<close> still sleeps \<open>2 ^ max_retries\<close> after that request and then returns
  \<^verbatim>\<open>None\<close>; and on a server that answers every attempt by 429 it returns \<^verbatim>\<open>None\<close>
  with the error list as it was.
\<close>

theorem fetch_page_rate_limited_final:
  "(0 \<le> r \<and> fetch_loop S url r [0..<nat r] w = (None, w1)
      \<and> session_get S (trace w1) url = Http 429 body
    \<longrightarrow> fetch_page S url (Some r) w = (None, emit (Sleep (2 ^ nat r)) (emit (Get url) w1)))
   \<and> ((\<forall>h. \<exists>b. session_get S h url = Http 429 b)
    \<longrightarrow> fst (fetch_page S url retries w) = None
        \<and> errors (snd (fetch_page S url retries w)) = errors w)"
  by (auto simp: fetch_page_def attempts_last fetch_loop_append Let_def fetch_loop_rate_limited)

theorem fetch_page_rate_limited_final_witness:
  "(0::int) \<le> 1
   \<and> fetch_loop site_429 ''u'' 1 [0..<nat 1] w0 = (None, \<lparr>errors = [], trace = [Get ''u'', Sleep 1]\<rparr>)
   \<and> session_get site_429 [Get ''u'', Sleep 1] ''u'' = Http 429 ''Too Many Requests''
   \<and> fetch_page site_429 ''u'' (Some 1) w0 =
       (None, \<lparr>errors = [], trace = [Get ''u'', Sleep 1, Get ''u'', Sleep 2]\<rparr>)
   \<and> (\<forall>h. \<exists>b. session_get site_429 h ''u'' = Http 429 b)
   \<and> fst (fetch_page site_429 ''u'' None w0) = None
   \<and> errors (snd (fetch_page site_429 ''u'' None w0)) = errors w0"
proof -
  have a: "fetch_loop site_429 ''u'' 1 [0..<nat 1] w0 = (None, \<lparr>errors = [], trace = [Get ''u'', Sleep 1]\<rparr>)"
    by (simp add: site_429_def site_def w0_def emit_def)
  have b: "session_get site_429 (trace \<lparr>errors = [], trace = [Get ''u'', Sleep 1]\<rparr>) ''u''
             = Http 429 ''Too Many Requests''"
    by (simp add: site_429_def site_def)
  have c: "\<forall>h. \<exists>b. session_get site_429 h ''u'' = Http 429 b"
    by (simp add: site_429_def site_def)
  show ?thesis
    using fetch_page_rate_limited_final
            [of 1 site_429 "''u''" w0 "\<lparr>errors = [], trace = [Get ''u'', Sleep 1]\<rparr>"
                "''Too Many Requests''" None]
          a b c
    by (simp add: emit_def)
qed

text \<open>
  C2, as the code has it. An attempt answered by a status other than 200 and 429 uses up
  its attempt and the loop goes straight on to the next one: no sleep, nothing appended
  to the error list. On a server that answers every attempt so, \<^verbatim>\<open>_fetch_page\<close> makes
  its \<open>max_retries + 1\<close> requests back to back and returns \<^verbatim>\<open>None\<close> with the error
  list unchanged.
\<close>

theorem fetch_page_other_status:
  "(session_get S (trace w) url = Http st b \<and> st \<noteq> 200 \<and> st \<noteq> 429
    \<longrightarrow> fetch_loop S url r (attempt # rest) w = fetch_loop S url r rest (emit (Get url) w))
   \<and> ((\<forall>h. \<exists>st b. session_get S h url = Http st b \<and> st \<noteq> 200 \<and> st \<noteq> 429)
    \<longrightarrow> fetch_page S url (Some r) w =
          (None, w\<lparr>trace := trace w @ replicate (nat (r + 1)) (Get url)\<rparr>))"
proof (intro conjI impI)
  assume "session_get S (trace w) url = Http st b \<and> st \<noteq> 200 \<and> st \<noteq> 429"
  then show "fetch_loop S url r (attempt # rest) w = fetch_loop S url r rest (emit (Get url) w)"
    by simp
next
  assume "\<forall>h. \<exists>st b. session_get S h url = Http st b \<and> st \<noteq> 200 \<and> st \<noteq> 429"
  then have "\<And>h. \<exists>st b. session_get S h url = Http st b \<and> st \<noteq> 200 \<and> st \<noteq> 429"
    by blast
  then show "fetch_page S url (Some r) w =
               (None, w\<lparr>trace := trace w @ replicate (nat (r + 1)) (Get url)\<rparr>)"
    by (simp add: fetch_page_def fetch_loop_other_status)
qed

theorem fetch_page_other_status_witness:
  "session_get site_500 (trace w0) ''u'' = Http 500 ''Internal Server Error''
   \<and> (500::nat) \<noteq> 200 \<and> (500::nat) \<noteq> 429
   \<and> fetch_loop site_500 ''u'' 1 [0, 1] w0 = fetch_loop site_500 ''u'' 1 [1] (emit (Get ''u'') w0)
   \<and> (\<forall>h. \<exists>st b. session_get site_500 h ''u'' = Http st b \<and> st \<noteq> 200 \<and> st \<noteq> 429)
   \<and> fetch_page site_500 ''u'' (Some 1) w0 = (None, \<lparr>errors = [], trace = [Get ''u'', Get ''u'']\<rparr>)"
proof -
  have a: "session_get site_500 (trace w0) ''u'' = Http 500 ''Internal Server Error''"
    by (simp add: site_500_def site_def)
  have c: "\<forall>h. \<exists>st b. session_get site_500 h ''u'' = Http st b \<and> st \<noteq> 200 \<and> st \<noteq> 429"
    by (simp add: site_500_def site_def)
  show ?thesis
    using fetch_page_other_status
            [of site_500 w0 "''u''" 500 "''Internal Server Error''" 1 0 "[1]"]
          a c
    by (simp add: w0_def numeral_2_eq_2)
qed

text \<open>
  C2 as stated fails: with one retry, a server that answers 500 gets two requests with
  no sleep between them and the error list stays empty, whereas a server that refuses
  the connection gets a sleep of \<open>2 ^ 0\<close> between the two requests and leaves one
  message in the error list.
\<close>

theorem other_status_unlike_transport_error_counterexample:
  "fetch_page site_500 ''u'' (Some 1) w0 = (None, \<lparr>errors = [], trace = [Get ''u'', Get ''u'']\<rparr>)
   \<and> fetch_page site_down ''u'' (Some 1) w0 =
       (None, \<lparr>errors = [''Attempt 2 failed for u: Connection refused''],
               trace = [Get ''u'', Sleep 1, Get ''u'']\<rparr>)"
  by (simp add: fetch_page_def attempts_2 site_500_def site_down_def site_def w0_def emit_def
        append_error_def digit_def)

section \<open>The extractor\<close>

lemma truthy_iff: "truthy x \<longleftrightarrow> (\<exists>s. x = Some s \<and> s \<noteq> [])"
  by (cases x) auto

lemma parse_book_try_Inr:
  assumes "parse_book_try S el cat = Inr r"
  obtains t a p i l v where
    "extract_text S el ''title'' = Inr t" "extract_author S el = Inr a"
    "extract_price S el = Inr p" "extract_image S el = Inr i" "extract_link S el = Inr l"
    "extract_text S el ''availability'' = Inr v"
    "r = (if truthy t
          then Some \<lparr>title = the t, author = a, price = p, image_url = i, product_url = l,
                      availability = v, category = Some cat\<rparr>
          else None)"
  using assms unfolding parse_book_try_def
  by (simp split: sum.splits) (simp split: if_splits)

lemma parse_book_try_title:
  assumes "parse_book_try S el cat = Inr (Some b)"
  shows "title b \<noteq> []"
  using assms by (elim parse_book_try_Inr) (auto simp: truthy_iff split: if_splits)

lemma parse_book_Some:
  "parse_book S el cat w = (Some b, w') \<Longrightarrow> title b \<noteq> [] \<and> w' = w"
  by (auto simp: parse_book_def dest: parse_book_try_title split: sum.splits)

lemma parse_books_titles:
  "parse_books S els cat acc w = (bs, w') \<Longrightarrow> \<forall>b\<in>set acc. title b \<noteq> [] \<Longrightarrow>
   \<forall>b\<in>set bs. title b \<noteq> []"
proof (induction els arbitrary: acc w)
  case Nil
  then show ?case by simp
next
  case (Cons el els)
  obtain r w1 where step: "parse_book S el cat w = (r, w1)"
    by (cases "parse_book S el cat w")
  show ?case
  proof (cases r)
    case None
    with Cons.prems step have "parse_books S els cat acc w1 = (bs, w')" by simp
    then show ?thesis using Cons.IH Cons.prems(2) by blast
  next
    case (Some b)
    with step have "title b \<noteq> []" using parse_book_Some by blast
    with Cons.prems(2) have acc: "\<forall>x\<in>set (acc @ [b]). title x \<noteq> []" by simp
    from Cons.prems step Some have "parse_books S els cat (acc @ [b]) w1 = (bs, w')" by simp
    then show ?thesis using acc by (rule Cons.IH)
  qed
qed

lemma parse_page_titles:
  assumes "parse_page S html cat w = (Inr bs, w')"
  shows "\<forall>b\<in>set bs. title b \<noteq> []"
proof -
  from assms obtain els where "parse_books S els cat [] w = (bs, w')"
    by (auto simp: parse_page_def Let_def split: sum.splits prod.splits)
  then show ?thesis using parse_books_titles [of S els cat "[]" w bs w'] by simp
qed

lemma parse_book_untitled:
  assumes "extract_text S el ''title'' = Inr t" "\<not> truthy t"
  shows "fst (parse_book S el cat w) = None"
    and "(\<forall>e. parse_book_try S el cat \<noteq> Inl e) \<longrightarrow> snd (parse_book S el cat w) = w"
proof -
  show "fst (parse_book S el cat w) = None"
  proof (cases "parse_book_try S el cat")
    case (Inl e)
    then show ?thesis by (simp add: parse_book_def)
  next
    case (Inr r)
    then have "r = None" using assms by (elim parse_book_try_Inr) simp
    with Inr show ?thesis by (simp add: parse_book_def)
  qed
  show "(\<forall>e. parse_book_try S el cat \<noteq> Inl e) \<longrightarrow> snd (parse_book S el cat w) = w"
    by (cases "parse_book_try S el cat") (simp_all add: parse_book_def)
qed

lemma parse_book_price:
  assumes "parse_book S el cat w = (Some b, w')"
  shows "extract_price S el = Inr (price b)"
proof (cases "parse_book_try S el cat")
  case (Inl e)
  with assms show ?thesis by (simp add: parse_book_def)
next
  case (Inr r)
  with assms have "r = Some b" by (simp add: parse_book_def)
  with Inr show ?thesis by (elim parse_book_try_Inr) (auto split: if_splits)
qed

lemma find_only:
  assumes "find P xs = Some x"
  shows "P x \<and> x \<in> set xs"
  using assms by (induction xs) (auto split: if_splits)

lemma extract_price_both:
  assumes "selector S ''price'' = Inr css" "select_one el css = Some pe"
    and "p \<in> set (find_all pe ''div'')"
    and "\<forall>x\<in>set (find_all pe ''div''). x = p \<or> line_through x"
    and "get_text p \<noteq> []" "contains ''Rp'' (get_text p)" "\<not> line_through p"
  shows "extract_price S el = Inr (Some (get_text p))"
proof -
  have cp: "current_price_div p" using assms by (simp add: current_price_div_def)
  then have "find current_price_div (find_all pe ''div'') \<noteq> None"
    using assms(3) by (auto simp: find_None_iff)
  then obtain x where x: "find current_price_div (find_all pe ''div'') = Some x" by blast
  from find_only [OF x] assms(4) have "x = p" by (auto simp: current_price_div_def)
  with x assms(1,2,5) show ?thesis
    by (simp add: extract_price_def)
qed

lemma extract_price_fallback:
  assumes "selector S ''price'' = Inr css" "select_one el css = Some pe"
    and "\<forall>x\<in>set (find_all pe ''div''). \<not> current_price_div x"
  shows "extract_price S el = Inr (Some (get_text pe))"
proof -
  from assms(3) have "find current_price_div (find_all pe ''div'') = None"
    by (simp add: find_None_iff)
  with assms(1,2) show ?thesis by (simp add: extract_price_def)
qed

subsection \<open>The example elements, parsed\<close>

lemmas dom_defs = select_def select_one_def find_all_def get_attr_def

lemmas element_defs = product_def untitled_product_def price_box_def struck_def plain_def
  text_element_def container_def show_attrs_def listing_def next_link_def

lemmas extract_defs = selector_def extract_text_def extract_author_def extract_price_def
  extract_image_def extract_link_def absolute_def py_or_def current_price_div_def line_through_def

lemma parse_book_one:
  "parse_book (site server parser delay) book_one cat w =
     (Some \<lparr>title = ''Book One'', author = None, price = Some ''Rp 120,000'', image_url = None,
             product_url = Some ''https://www.periplus.com/p/1/book-one'',
             availability = None, category = Some cat\<rparr>, w)"
  by (simp add: parse_book_def parse_book_try_def extract_defs dom_defs book_one_def element_defs
        site_defs Let_def)

lemma parse_book_two:
  "parse_book (site server parser delay) book_two cat w =
     (Some \<lparr>title = ''Book Two'', author = None, price = Some ''Rp 90,000'', image_url = None,
             product_url = Some ''https://www.periplus.com/p/2/book-two'',
             availability = None, category = Some cat\<rparr>, w)"
  by (simp add: parse_book_def parse_book_try_def extract_defs dom_defs book_two_def element_defs
        site_defs Let_def)

lemma actual_book_one: "actual_book book_one"
  by (simp add: actual_book_def dom_defs book_one_def element_defs Let_def)

lemma actual_book_two: "actual_book book_two"
  by (simp add: actual_book_def dom_defs book_two_def element_defs Let_def)

lemma select_listing:
  "select (listing products nexts) ''div.single-product'' = products"
  by (simp add: select_def listing_def container_def)

lemma select_one_listing_next:
  "select_one (listing products nexts) (pagination_selector PERIPLUS_CONFIG) =
     (case nexts of [] \<Rightarrow> None | x # _ \<Rightarrow> Some x)"
  by (simp add: select_one_def select_def listing_def container_def PERIPLUS_CONFIG_def sq_def)

lemma selector_site:
  "selector (site server parser delay) ''product_container'' = Inr ''div.single-product''"
  "selector (site server parser delay) ''price'' = Inr ''.product-price''"
  "selector (site server parser delay) ''title'' = Inr ''h3 a''"
  by (simp_all add: selector_def site_defs)

lemma parse_page_one:
  assumes "parser html = Inr (listing [book_one] nexts)"
  shows "parse_page (site server parser delay) html cat w =
     (Inr [\<lparr>title = ''Book One'', author = None, price = Some ''Rp 120,000'', image_url = None,
             product_url = Some ''https://www.periplus.com/p/1/book-one'',
             availability = None, category = Some cat\<rparr>], w)"
proof -
  have "BeautifulSoup (site server parser delay) html = Inr (listing [book_one] nexts)"
    using assms by (simp add: site_def)
  then show ?thesis
    by (simp add: parse_page_def selector_site select_listing actual_book_one parse_book_one)
qed

lemma untitled_title:
  "extract_text (site server parser delay) (untitled_product href box) ''title'' = Inr None"
  by (simp add: extract_text_def selector_site dom_defs untitled_product_def container_def Let_def)

lemma untitled_try:
  "parse_book_try (site server parser delay) (untitled_product ''/p/9/no-title'' (price_box [])) cat
     = Inr None"
  by (simp add: parse_book_try_def extract_defs dom_defs element_defs site_defs Let_def)

lemma line_through_struck: "line_through (struck t)"
  by (simp add: line_through_def struck_def text_element_def show_attrs_def dq_def)

lemma line_through_plain_120: "\<not> line_through (plain ''Rp 120,000'')"
  by (simp add: line_through_def plain_def text_element_def show_attrs_def)

text \<open>
  C6. Every book that \<^verbatim>\<open>_parse_book\<close> returns has a non-empty title, and returning it
  leaves the error list alone; so has every book of the list \<^verbatim>\<open>_parse_page\<close> returns.
  An element without a title (no match, or a match with empty text) yields no book, and
  unless the \<^verbatim>\<open>try\<close> block raises, the world, with its error list, is unchanged.
\<close>

theorem parsed_books_titled:
  "(parse_book S el cat w = (Some b, w') \<longrightarrow> title b \<noteq> [] \<and> w' = w)
   \<and> (parse_page S html cat w = (Inr bs, w') \<longrightarrow> (\<forall>b\<in>set bs. title b \<noteq> []))
   \<and> (extract_text S el ''title'' = Inr t \<and> \<not> truthy t
        \<longrightarrow> fst (parse_book S el cat w) = None
            \<and> ((\<forall>e. parse_book_try S el cat \<noteq> Inl e) \<longrightarrow> snd (parse_book S el cat w) = w))"
  using parse_book_Some [of S el cat w b w'] parse_page_titles [of S html cat w bs w']
    parse_book_untitled [of S el t cat w]
  by blast

theorem parsed_books_titled_witness:
  "parse_book site_two_pages book_one ''new_releases'' w0 =
     (Some \<lparr>title = ''Book One'', author = None, price = Some ''Rp 120,000'', image_url = None,
             product_url = Some ''https://www.periplus.com/p/1/book-one'',
             availability = None, category = Some ''new_releases''\<rparr>, w0)
   \<and> parse_page site_two_pages ''page 1'' ''new_releases'' w0 =
     (Inr [\<lparr>title = ''Book One'', author = None, price = Some ''Rp 120,000'', image_url = None,
             product_url = Some ''https://www.periplus.com/p/1/book-one'',
             availability = None, category = Some ''new_releases''\<rparr>], w0)
   \<and> extract_text site_two_pages (untitled_product ''/p/9/no-title'' (price_box [])) ''title''
       = Inr None
   \<and> \<not> truthy None
   \<and> (\<forall>e. parse_book_try site_two_pages (untitled_product ''/p/9/no-title'' (price_box []))
              ''new_releases'' \<noteq> Inl e)
   \<and> parse_book site_two_pages (untitled_product ''/p/9/no-title'' (price_box []))
        ''new_releases'' w0 = (None, w0)"
proof -
  let ?b = "\<lparr>title = ''Book One'', author = None, price = Some ''Rp 120,000'', image_url = None,
             product_url = Some ''https://www.periplus.com/p/1/book-one'',
             availability = None, category = Some ''new_releases''\<rparr>"
  let ?u = "untitled_product ''/p/9/no-title'' (price_box [])"
  have a: "parse_book site_two_pages book_one ''new_releases'' w0 = (Some ?b, w0)"
    unfolding site_two_pages_def by (rule parse_book_one)
  have b: "parse_page site_two_pages ''page 1'' ''new_releases'' w0 = (Inr [?b], w0)"
    unfolding site_two_pages_def by (rule parse_page_one) (simp add: two_pages_parser_def)
  have c: "extract_text site_two_pages ?u ''title'' = Inr None"
    unfolding site_two_pages_def by (rule untitled_title)
  have d: "\<forall>e. parse_book_try site_two_pages ?u ''new_releases'' \<noteq> Inl e"
    unfolding site_two_pages_def by (simp add: untitled_try)
  have e: "fst (parse_book site_two_pages ?u ''new_releases'' w0) = None
           \<and> snd (parse_book site_two_pages ?u ''new_releases'' w0) = w0"
    using parsed_books_titled
            [of site_two_pages ?u "''new_releases''" w0 ?b w0 "''page 1''" "[?b]" None]
      c d by simp
  then have "parse_book site_two_pages ?u ''new_releases'' w0 = (None, w0)"
    by (simp add: prod_eq_iff)
  with a b c d show ?thesis by simp
qed

text \<open>
  C7, as the code has it. Let the price element be found. When among its \<^verbatim>\<open>div\<close>
  descendants there is a plain one whose text is not empty and contains \<^verbatim>\<open>Rp\<close>, and
  every other one is struck through (its serialisation contains
  \<^verbatim>\<open>text-decoration:line-through\<close>), the price is the text of the plain one. When no
  \<^verbatim>\<open>div\<close> below the price element is such a current price, the price is the whole
  stripped text of the price element. The price of a parsed book is this price.
\<close>

theorem extract_price_current:
  assumes "selector S ''price'' = Inr css" and "select_one el css = Some pe"
  shows "(p \<in> set (find_all pe ''div'')
          \<and> (\<forall>x\<in>set (find_all pe ''div''). x = p \<or> line_through x)
          \<and> get_text p \<noteq> [] \<and> contains ''Rp'' (get_text p) \<and> \<not> line_through p
          \<longrightarrow> extract_price S el = Inr (Some (get_text p)))
       \<and> ((\<forall>x\<in>set (find_all pe ''div''). \<not> current_price_div x)
          \<longrightarrow> extract_price S el = Inr (Some (get_text pe)))
       \<and> (parse_book S el cat w = (Some b, w') \<longrightarrow> extract_price S el = Inr (price b))"
  using extract_price_both [OF assms, of p] extract_price_fallback [OF assms]
    parse_book_price [of S el cat w b w']
  by blast

theorem extract_price_current_witness:
  "selector site_two_pages ''price'' = Inr ''.product-price''
   \<and> select_one book_one ''.product-price''
       = Some (price_box [struck ''Rp 150,000'', plain ''Rp 120,000''])
   \<and> find_all (price_box [struck ''Rp 150,000'', plain ''Rp 120,000'']) ''div''
       = [struck ''Rp 150,000'', plain ''Rp 120,000'']
   \<and> line_through (struck ''Rp 150,000'')
   \<and> get_text (plain ''Rp 120,000'') = ''Rp 120,000''
   \<and> contains ''Rp'' (get_text (plain ''Rp 120,000''))
   \<and> \<not> line_through (plain ''Rp 120,000'')
   \<and> extract_price site_two_pages book_one = Inr (Some ''Rp 120,000'')
   \<and> select_one book_three ''.product-price''
       = Some (text_element ''div'' [(''class'', ''product-price'')] ''Rp 75,000'')
   \<and> find_all (text_element ''div'' [(''class'', ''product-price'')] ''Rp 75,000'') ''div'' = []
   \<and> extract_price site_two_pages book_three = Inr (Some ''Rp 75,000'')
   \<and> parse_book site_two_pages book_one ''new_releases'' w0 =
       (Some \<lparr>title = ''Book One'', author = None, price = Some ''Rp 120,000'', image_url = None,
               product_url = Some ''https://www.periplus.com/p/1/book-one'',
               availability = None, category = Some ''new_releases''\<rparr>, w0)"
proof -
  let ?box = "price_box [struck ''Rp 150,000'', plain ''Rp 120,000'']"
  let ?p = "plain ''Rp 120,000''"
  let ?box3 = "text_element ''div'' [(''class'', ''product-price'')] ''Rp 75,000''"
  let ?b = "\<lparr>title = ''Book One'', author = None, price = Some ''Rp 120,000'', image_url = None,
             product_url = Some ''https://www.periplus.com/p/1/book-one'',
             availability = None, category = Some ''new_releases''\<rparr>"
  have s: "selector site_two_pages ''price'' = Inr ''.product-price''"
    unfolding site_two_pages_def by (rule selector_site)
  have b1: "select_one book_one ''.product-price'' = Some ?box"
    by (simp add: dom_defs book_one_def product_def container_def Let_def)
  have divs: "find_all ?box ''div'' = [struck ''Rp 150,000'', ?p]"
    by (simp add: find_all_def price_box_def container_def)
  have tp: "get_text ?p = ''Rp 120,000''"
    by (simp add: plain_def text_element_def)
  have h1: "?p \<in> set (find_all ?box ''div'')"
    and h2: "\<forall>x\<in>set (find_all ?box ''div''). x = ?p \<or> line_through x"
    and h3: "get_text ?p \<noteq> []" and h4: "contains ''Rp'' (get_text ?p)"
    by (simp_all add: divs tp line_through_struck)
  have b3: "select_one book_three ''.product-price'' = Some ?box3"
    by (simp add: dom_defs book_three_def product_def container_def Let_def)
  have divs3: "find_all ?box3 ''div'' = []"
    by (simp add: find_all_def text_element_def)
  then have none3: "\<forall>x\<in>set (find_all ?box3 ''div''). \<not> current_price_div x"
    by simp
  have pb: "parse_book site_two_pages book_one ''new_releases'' w0 = (Some ?b, w0)"
    unfolding site_two_pages_def by (rule parse_book_one)
  have tp3: "get_text ?box3 = ''Rp 75,000''"
    by (simp add: text_element_def)
  from extract_price_current [OF s b1, of ?p "''new_releases''" w0 ?b w0]
    h1 h2 h3 h4 line_through_plain_120 pb
  have r1: "extract_price site_two_pages book_one = Inr (Some (get_text ?p))"
    and r3: "extract_price site_two_pages book_one = Inr (price ?b)"
    by blast+
  from extract_price_current [OF s b3, of ?p "''new_releases''" w0 ?b w0] none3
  have r2: "extract_price site_two_pages book_three = Inr (Some (get_text ?box3))"
    by blast
  show ?thesis
    using s b1 divs line_through_struck [of "''Rp 150,000''"] h4 line_through_plain_120 r1 b3
      divs3 r2 pb tp tp3
    by simp
qed

text \<open>
  C7 as stated fails. The price element of this book holds a struck-through
  \<^verbatim>\<open><div style="text-decoration:line-through">USD 15</div>\<close> and a plain
  \<^verbatim>\<open><div>USD 10</div>\<close>. Neither text contains \<^verbatim>\<open>Rp\<close>, so no \<^verbatim>\<open>div\<close> is taken
  and the price is the text of the whole price element: neither the plain price nor the
  first text.
\<close>

theorem extract_price_plain_counterexample:
  "select_one book_usd ''.product-price'' = Some usd_box
   \<and> find_all usd_box ''div'' = [struck ''USD 15'', plain ''USD 10'']
   \<and> line_through (struck ''USD 15'') \<and> \<not> line_through (plain ''USD 10'')
   \<and> get_text (struck ''USD 15'') = ''USD 15'' \<and> get_text (plain ''USD 10'') = ''USD 10''
   \<and> extract_price site_two_pages book_usd = Inr (Some ''USD 15USD 10'')"
  by (simp add: extract_defs dom_defs book_usd_def usd_box_def element_defs site_two_pages_def
        site_defs Let_def)

section \<open>The category walker\<close>

lemma scrape_pages_done:
  "max_pages' < current_page \<Longrightarrow>
   scrape_pages S cn cp max_pages' current_page acc w = (Inr acc, w)"
  by (subst scrape_pages.simps) simp

lemma scrape_pages_fetch_failed:
  assumes "current_page \<le> max_pages'"
    and "fetch_page S (build_category_url S cp current_page) None w = (h, w1)"
    and "\<not> truthy h"
  shows "scrape_pages S cn cp max_pages' current_page acc w = (Inr acc, w1)"
  using assms by (subst scrape_pages.simps) simp

lemma scrape_pages_empty_page:
  assumes "current_page \<le> max_pages'"
    and "fetch_page S (build_category_url S cp current_page) None w = (Some html, w1)"
    and "html \<noteq> []"
    and "parse_page S html cn w1 = (Inr [], w2)"
  shows "scrape_pages S cn cp max_pages' current_page acc w = (Inr acc, w2)"
  using assms by (subst scrape_pages.simps) simp

lemma scrape_pages_no_next:
  assumes "current_page \<le> max_pages'"
    and "fetch_page S (build_category_url S cp current_page) None w = (Some html, w1)"
    and "html \<noteq> []"
    and "parse_page S html cn w1 = (Inr page_books, w2)"
    and "page_books \<noteq> []"
    and "get_next_page_url S html (build_category_url S cp current_page) = Inr nx"
    and "\<not> truthy nx"
  shows "scrape_pages S cn cp max_pages' current_page acc w = (Inr (acc @ page_books), w2)"
  using assms by (subst scrape_pages.simps) simp

lemma scrape_pages_continue:
  assumes "current_page \<le> max_pages'"
    and "fetch_page S (build_category_url S cp current_page) None w = (Some html, w1)"
    and "html \<noteq> []"
    and "parse_page S html cn w1 = (Inr page_books, w2)"
    and "page_books \<noteq> []"
    and "get_next_page_url S html (build_category_url S cp current_page) = Inr nx"
    and "truthy nx"
  shows "scrape_pages S cn cp max_pages' current_page acc w =
         scrape_pages S cn cp max_pages' (current_page + 1) (acc @ page_books)
           (if delay_between_requests (scraper_config S) > 0
            then emit (Sleep (delay_between_requests (scraper_config S))) w2 else w2)"
  using assms by (subst scrape_pages.simps) simp

lemma scrape_pages_keeps:
  "scrape_pages S cn cp max_pages' current_page acc w = (Inr bs, w') \<Longrightarrow> \<exists>ext. bs = acc @ ext"
proof (induction S cn cp max_pages' current_page acc w rule: scrape_pages.induct)
  case (1 S cn cp max_pages' current_page acc w)
  show ?case
  proof (cases "current_page \<le> max_pages'")
    case False
    with "1.prems" show ?thesis by (simp add: scrape_pages_done)
  next
    case le: True
    obtain h w1 where f: "fetch_page S (build_category_url S cp current_page) None w = (h, w1)"
      by (cases "fetch_page S (build_category_url S cp current_page) None w")
    show ?thesis
    proof (cases "truthy h")
      case False
      with "1.prems" le f show ?thesis by (simp add: scrape_pages_fetch_failed)
    next
      case True
      then obtain html where h: "h = Some html" "html \<noteq> []" by (cases h) auto
      obtain r w2 where p: "parse_page S html cn w1 = (r, w2)" by (cases "parse_page S html cn w1")
      show ?thesis
      proof (cases r)
        case (Inl e)
        with "1.prems" le f h p show ?thesis by (subst (asm) scrape_pages.simps) simp
      next
        case (Inr pb)
        show ?thesis
        proof (cases "pb = []")
          case True
          with "1.prems" le f h p Inr show ?thesis by (simp add: scrape_pages_empty_page)
        next
          case ne: False
          show ?thesis
          proof (cases "get_next_page_url S html (build_category_url S cp current_page)")
            case (Inl e)
            with "1.prems" le f h p Inr ne show ?thesis by (subst (asm) scrape_pages.simps) simp
          next
            case nx: (Inr nx)
            show ?thesis
            proof (cases "truthy nx")
              case False
              with "1.prems" le f h p Inr ne nx show ?thesis
                by (auto simp: scrape_pages_no_next [where html = html and ?w1.0 = w1 and nx = nx])
            next
              case True
              let ?w3 = "if delay_between_requests (scraper_config S) > 0
                         then emit (Sleep (delay_between_requests (scraper_config S))) w2 else w2"
              have "scrape_pages S cn cp max_pages' (current_page + 1) (acc @ pb) ?w3 = (Inr bs, w')"
                using "1.prems" scrape_pages_continue [OF le _ h(2) _ ne nx True] f h p Inr
                by simp
              then have "\<exists>ext. bs = (acc @ pb) @ ext"
                using "1.IH" [OF le refl refl, of h w1 r w2 pb nx] f h p Inr ne nx True by simp
              then show ?thesis by auto
            qed
          qed
        qed
      qed
    qed
  qed
qed

subsection \<open>The example sites, walked\<close>

lemma attempts_first: "0 \<le> r \<Longrightarrow> [0..<nat (r + 1)] = 0 # [1..<nat (r + 1)]"
  by (simp add: upt_conv_Cons)

lemma fetch_page_200:
  assumes "session_get S (trace w) url = Http 200 body"
    and "0 \<le> (case retries of None \<Rightarrow> max_retries (scraper_config S) | Some r \<Rightarrow> r)"
  shows "fetch_page S url retries w = (Some body, emit (Get url) w)"
  using assms by (simp add: fetch_page_def Let_def attempts_first)

lemma build_url_1:
  "build_category_url (site server parser delay) ''103'' 1 = page1_url"
  by (simp add: build_category_url_def site_defs page1_url_def)

lemma build_url_2:
  "build_category_url (site server parser delay) ''103'' 2 = page2_url"
  by (simp add: build_category_url_def site_defs page2_url_def str_int_def digit_def)

lemma next_of_listing:
  assumes "parser html = Inr (listing products [to_page_two])"
  shows "get_next_page_url (site server parser delay) html url =
           Inr (Some ''https://www.periplus.com/index.php?route=product/category&anl=103&page=2'')"
proof -
  have "BeautifulSoup (site server parser delay) html = Inr (listing products [to_page_two])"
    using assms by (simp add: site_def)
  moreover have "pagination_selector (site_config (site server parser delay)) = pagination_selector PERIPLUS_CONFIG"
    by (simp add: site_def)
  ultimately show ?thesis
    by (simp add: get_next_page_url_def select_one_listing_next to_page_two_def next_link_def
          text_element_def get_attr_def site_def site_urljoin_def)
qed

lemma no_next_of_listing:
  assumes "parser html = Inr (listing products [])"
  shows "get_next_page_url (site server parser delay) html url = Inr None"
proof -
  have "BeautifulSoup (site server parser delay) html = Inr (listing products [])"
    using assms by (simp add: site_def)
  moreover have "pagination_selector (site_config (site server parser delay)) = pagination_selector PERIPLUS_CONFIG"
    by (simp add: site_def)
  ultimately show ?thesis
    by (simp add: get_next_page_url_def select_one_listing_next)
qed

lemma parse_page_two:
  assumes "parser html = Inr (listing [book_two] nexts)"
  shows "parse_page (site server parser delay) html cat w =
     (Inr [\<lparr>title = ''Book Two'', author = None, price = Some ''Rp 90,000'', image_url = None,
             product_url = Some ''https://www.periplus.com/p/2/book-two'',
             availability = None, category = Some cat\<rparr>], w)"
proof -
  have "BeautifulSoup (site server parser delay) html = Inr (listing [book_two] nexts)"
    using assms by (simp add: site_def)
  then show ?thesis
    by (simp add: parse_page_def selector_site select_listing actual_book_two parse_book_two)
qed

lemma parse_page_none:
  assumes "parser html = Inr (listing [] nexts)"
  shows "parse_page (site server parser delay) html cat w = (Inr [], w)"
proof -
  have "BeautifulSoup (site server parser delay) html = Inr (listing [] nexts)"
    using assms by (simp add: site_def)
  then show ?thesis
    by (simp add: parse_page_def selector_site select_listing)
qed

lemma site_fields:
  "session_get (site server parser delay) = server"
  "max_retries (scraper_config (site server parser delay)) = 3"
  "max_pages (scraper_config (site server parser delay)) = 5"
  "delay_between_requests (scraper_config (site server parser delay)) = delay"
  by (simp_all add: site_def)

lemma page_urls_differ: "page1_url \<noteq> page2_url"
  by (simp add: page1_url_def page2_url_def)


lemma fetch_site_down:
  "fetch_page site_down url None w =
     (None, w\<lparr>errors := errors w @ [''Attempt 4 failed for '' @ url @ '': Connection refused''],
              trace := trace w @ [Get url, Sleep 1, Get url, Sleep 2, Get url, Sleep 4, Get url]\<rparr>)"
  by (simp add: fetch_page_def attempts_4 site_down_def site_def emit_def append_error_def Let_def
        digit_def)

lemma fetch_two_pages_1:
  "fetch_page site_two_pages page1_url None w = (Some ''page 1'', emit (Get page1_url) w)"
  unfolding site_two_pages_def
  by (rule fetch_page_200) (simp_all add: site_fields two_pages_server_def page_urls_differ)

lemma fetch_two_pages_2:
  "fetch_page site_two_pages page2_url None w = (Some ''page 2'', emit (Get page2_url) w)"
  unfolding site_two_pages_def
  by (rule fetch_page_200) (simp_all add: site_fields two_pages_server_def)

lemma fetch_site_empty:
  "fetch_page site_empty url None w = (Some ''page'', emit (Get url) w)"
  unfolding site_empty_def
  by (rule fetch_page_200) (simp_all add: site_fields)

lemma url_two_pages:
  "build_category_url site_two_pages ''103'' 1 = page1_url"
  "build_category_url site_two_pages ''103'' 2 = page2_url"
  unfolding site_two_pages_def by (rule build_url_1, rule build_url_2)

lemma url_site_down: "build_category_url site_down ''103'' 1 = page1_url"
  unfolding site_down_def by (rule build_url_1)

lemma url_site_empty: "build_category_url site_empty ''103'' 1 = page1_url"
  unfolding site_empty_def by (rule build_url_1)

lemma parse_two_pages_1:
  "parse_page site_two_pages ''page 1'' cat w =
     (Inr [\<lparr>title = ''Book One'', author = None, price = Some ''Rp 120,000'', image_url = None,
             product_url = Some ''https://www.periplus.com/p/1/book-one'',
             availability = None, category = Some cat\<rparr>], w)"
  unfolding site_two_pages_def by (rule parse_page_one) (simp add: two_pages_parser_def)

lemma parse_two_pages_2:
  "parse_page site_two_pages ''page 2'' cat w =
     (Inr [\<lparr>title = ''Book Two'', author = None, price = Some ''Rp 90,000'', image_url = None,
             product_url = Some ''https://www.periplus.com/p/2/book-two'',
             availability = None, category = Some cat\<rparr>], w)"
  unfolding site_two_pages_def by (rule parse_page_two) (simp add: two_pages_parser_def)

lemma next_two_pages_1:
  "get_next_page_url site_two_pages ''page 1'' url =
     Inr (Some ''https://www.periplus.com/index.php?route=product/category&anl=103&page=2'')"
  unfolding site_two_pages_def by (rule next_of_listing) (simp add: two_pages_parser_def)

lemma next_two_pages_2:
  "get_next_page_url site_two_pages ''page 2'' url = Inr None"
  unfolding site_two_pages_def by (rule no_next_of_listing) (simp add: two_pages_parser_def)

lemma parse_site_empty:
  "parse_page site_empty ''page'' cat w = (Inr [], w)"
  unfolding site_empty_def by (rule parse_page_none) simp

lemma next_site_empty:
  "get_next_page_url site_empty ''page'' url =
     Inr (Some ''https://www.periplus.com/index.php?route=product/category&anl=103&page=2'')"
  unfolding site_empty_def by (rule next_of_listing) simp

lemma delay_two_pages: "delay_between_requests (scraper_config site_two_pages) = 1"
  by (simp add: site_two_pages_def site_fields)


text \<open>
  C4. The walk stops and returns what it has accumulated: at once when the page counter
  is beyond \<open>max_pages\<close>; when the fetch of the current page fails (\<^verbatim>\<open>None\<close> or an
  empty body), with the books of the earlier pages; when the current page yields no book,
  whether or not it links to a next page; and when the current page has no next link,
  with this page's books appended. Whatever it returns extends the books accumulated
  before. In particular, with \<open>max_pages = 3\<close>, a first page with books and a next link
  and a second page with books and no next link, the walk returns the books of pages 1
  and 2.
\<close>

theorem scrape_category_stops:
  "(max_pages' < current_page
      \<longrightarrow> scrape_pages S cn cp max_pages' current_page acc w = (Inr acc, w))
   \<and> (current_page \<le> max_pages'
       \<and> fetch_page S (build_category_url S cp current_page) None w = (h, w1) \<and> \<not> truthy h
      \<longrightarrow> scrape_pages S cn cp max_pages' current_page acc w = (Inr acc, w1))
   \<and> (current_page \<le> max_pages'
       \<and> fetch_page S (build_category_url S cp current_page) None w = (Some html, w1)
       \<and> html \<noteq> [] \<and> parse_page S html cn w1 = (Inr [], w2)
      \<longrightarrow> scrape_pages S cn cp max_pages' current_page acc w = (Inr acc, w2))
   \<and> (current_page \<le> max_pages'
       \<and> fetch_page S (build_category_url S cp current_page) None w = (Some html, w1)
       \<and> html \<noteq> [] \<and> parse_page S html cn w1 = (Inr page_books, w2) \<and> page_books \<noteq> []
       \<and> get_next_page_url S html (build_category_url S cp current_page) = Inr nx \<and> \<not> truthy nx
      \<longrightarrow> scrape_pages S cn cp max_pages' current_page acc w = (Inr (acc @ page_books), w2))
   \<and> (scrape_pages S cn cp max_pages' current_page acc w = (Inr bs, w')
      \<longrightarrow> (\<exists>ext. bs = acc @ ext))
   \<and> (fetch_page S (build_category_url S cp 1) None v = (Some html1, v1) \<and> html1 \<noteq> []
       \<and> parse_page S html1 cn v1 = (Inr books1, v2) \<and> books1 \<noteq> []
       \<and> get_next_page_url S html1 (build_category_url S cp 1) = Inr n1 \<and> truthy n1
       \<and> fetch_page S (build_category_url S cp 2) None
            (if delay_between_requests (scraper_config S) > 0
             then emit (Sleep (delay_between_requests (scraper_config S))) v2 else v2)
           = (Some html2, v3)
       \<and> html2 \<noteq> [] \<and> parse_page S html2 cn v3 = (Inr books2, v4) \<and> books2 \<noteq> []
       \<and> get_next_page_url S html2 (build_category_url S cp 2) = Inr n2 \<and> \<not> truthy n2
      \<longrightarrow> scrape_category S cn cp (Some 3) v = (Inr (books1 @ books2), v4))"
proof (intro conjI impI)
  assume "max_pages' < current_page"
  then show "scrape_pages S cn cp max_pages' current_page acc w = (Inr acc, w)"
    by (rule scrape_pages_done)
next
  assume "current_page \<le> max_pages'
       \<and> fetch_page S (build_category_url S cp current_page) None w = (h, w1) \<and> \<not> truthy h"
  then show "scrape_pages S cn cp max_pages' current_page acc w = (Inr acc, w1)"
    using scrape_pages_fetch_failed by blast
next
  assume "current_page \<le> max_pages'
       \<and> fetch_page S (build_category_url S cp current_page) None w = (Some html, w1)
       \<and> html \<noteq> [] \<and> parse_page S html cn w1 = (Inr [], w2)"
  then show "scrape_pages S cn cp max_pages' current_page acc w = (Inr acc, w2)"
    using scrape_pages_empty_page by blast
next
  assume "current_page \<le> max_pages'
       \<and> fetch_page S (build_category_url S cp current_page) None w = (Some html, w1)
       \<and> html \<noteq> [] \<and> parse_page S html cn w1 = (Inr page_books, w2) \<and> page_books \<noteq> []
       \<and> get_next_page_url S html (build_category_url S cp current_page) = Inr nx \<and> \<not> truthy nx"
  then show "scrape_pages S cn cp max_pages' current_page acc w = (Inr (acc @ page_books), w2)"
    using scrape_pages_no_next by blast
next
  assume "scrape_pages S cn cp max_pages' current_page acc w = (Inr bs, w')"
  then show "\<exists>ext. bs = acc @ ext"
    by (rule scrape_pages_keeps)
next
  let ?v2 = "if delay_between_requests (scraper_config S) > 0
             then emit (Sleep (delay_between_requests (scraper_config S))) v2 else v2"
  assume a: "fetch_page S (build_category_url S cp 1) None v = (Some html1, v1) \<and> html1 \<noteq> []
       \<and> parse_page S html1 cn v1 = (Inr books1, v2) \<and> books1 \<noteq> []
       \<and> get_next_page_url S html1 (build_category_url S cp 1) = Inr n1 \<and> truthy n1
       \<and> fetch_page S (build_category_url S cp 2) None ?v2 = (Some html2, v3)
       \<and> html2 \<noteq> [] \<and> parse_page S html2 cn v3 = (Inr books2, v4) \<and> books2 \<noteq> []
       \<and> get_next_page_url S html2 (build_category_url S cp 2) = Inr n2 \<and> \<not> truthy n2"
  have "scrape_pages S cn cp 3 1 [] v = scrape_pages S cn cp 3 (1 + 1) ([] @ books1) ?v2"
    using a by (intro scrape_pages_continue [where html = html1 and ?w1.0 = v1 and nx = n1]) simp_all
  also have "\<dots> = (Inr (([] @ books1) @ books2), v4)"
    using a by (intro scrape_pages_no_next [where html = html2 and ?w1.0 = v3 and nx = n2]) simp_all
  finally show "scrape_category S cn cp (Some 3) v = (Inr (books1 @ books2), v4)"
    by (simp add: scrape_category_def)
qed

theorem scrape_category_stops_witness:
  "scrape_pages site_two_pages ''new_releases'' ''103'' 0 1 [] w0 = (Inr [], w0)
   \<and> fetch_page site_down (build_category_url site_down ''103'' 1) None w0 =
        (None, \<lparr>errors = [''Attempt 4 failed for '' @ page1_url @ '': Connection refused''],
                trace = [Get page1_url, Sleep 1, Get page1_url, Sleep 2, Get page1_url, Sleep 4,
                         Get page1_url]\<rparr>)
   \<and> scrape_pages site_down ''new_releases'' ''103'' 3 1 [] w0 =
        (Inr [], \<lparr>errors = [''Attempt 4 failed for '' @ page1_url @ '': Connection refused''],
                  trace = [Get page1_url, Sleep 1, Get page1_url, Sleep 2, Get page1_url, Sleep 4,
                           Get page1_url]\<rparr>)
   \<and> fetch_page site_empty (build_category_url site_empty ''103'' 1) None w0 =
        (Some ''page'', \<lparr>errors = [], trace = [Get page1_url]\<rparr>)
   \<and> parse_page site_empty ''page'' ''new_releases'' \<lparr>errors = [], trace = [Get page1_url]\<rparr> =
        (Inr [], \<lparr>errors = [], trace = [Get page1_url]\<rparr>)
   \<and> get_next_page_url site_empty ''page'' page1_url =
        Inr (Some ''https://www.periplus.com/index.php?route=product/category&anl=103&page=2'')
   \<and> scrape_pages site_empty ''new_releases'' ''103'' 3 1 [] w0 =
        (Inr [], \<lparr>errors = [], trace = [Get page1_url]\<rparr>)
   \<and> fetch_page site_two_pages (build_category_url site_two_pages ''103'' 1) None w0 =
        (Some ''page 1'', \<lparr>errors = [], trace = [Get page1_url]\<rparr>)
   \<and> parse_page site_two_pages ''page 1'' ''new_releases'' \<lparr>errors = [], trace = [Get page1_url]\<rparr> =
        (Inr [\<lparr>title = ''Book One'', author = None, price = Some ''Rp 120,000'', image_url = None,
                product_url = Some ''https://www.periplus.com/p/1/book-one'',
                availability = None, category = Some ''new_releases''\<rparr>],
         \<lparr>errors = [], trace = [Get page1_url]\<rparr>)
   \<and> get_next_page_url site_two_pages ''page 1'' (build_category_url site_two_pages ''103'' 1) =
        Inr (Some ''https://www.periplus.com/index.php?route=product/category&anl=103&page=2'')
   \<and> fetch_page site_two_pages (build_category_url site_two_pages ''103'' 2) None
        \<lparr>errors = [], trace = [Get page1_url, Sleep 1]\<rparr> =
        (Some ''page 2'', \<lparr>errors = [], trace = [Get page1_url, Sleep 1, Get page2_url]\<rparr>)
   \<and> parse_page site_two_pages ''page 2'' ''new_releases''
        \<lparr>errors = [], trace = [Get page1_url, Sleep 1, Get page2_url]\<rparr> =
        (Inr [\<lparr>title = ''Book Two'', author = None, price = Some ''Rp 90,000'', image_url = None,
                product_url = Some ''https://www.periplus.com/p/2/book-two'',
                availability = None, category = Some ''new_releases''\<rparr>],
         \<lparr>errors = [], trace = [Get page1_url, Sleep 1, Get page2_url]\<rparr>)
   \<and> get_next_page_url site_two_pages ''page 2'' (build_category_url site_two_pages ''103'' 2) =
        Inr None
   \<and> scrape_pages site_two_pages ''new_releases'' ''103'' 3 2
        [\<lparr>title = ''Book One'', author = None, price = Some ''Rp 120,000'', image_url = None,
          product_url = Some ''https://www.periplus.com/p/1/book-one'',
          availability = None, category = Some ''new_releases''\<rparr>]
        \<lparr>errors = [], trace = [Get page1_url, Sleep 1]\<rparr> =
        (Inr [\<lparr>title = ''Book One'', author = None, price = Some ''Rp 120,000'', image_url = None,
                product_url = Some ''https://www.periplus.com/p/1/book-one'',
                availability = None, category = Some ''new_releases''\<rparr>,
              \<lparr>title = ''Book Two'', author = None, price = Some ''Rp 90,000'', image_url = None,
                product_url = Some ''https://www.periplus.com/p/2/book-two'',
                availability = None, category = Some ''new_releases''\<rparr>],
         \<lparr>errors = [], trace = [Get page1_url, Sleep 1, Get page2_url]\<rparr>)
   \<and> scrape_category site_two_pages ''new_releases'' ''103'' (Some 3) w0 =
        (Inr [\<lparr>title = ''Book One'', author = None, price = Some ''Rp 120,000'', image_url = None,
                product_url = Some ''https://www.periplus.com/p/1/book-one'',
                availability = None, category = Some ''new_releases''\<rparr>,
              \<lparr>title = ''Book Two'', author = None, price = Some ''Rp 90,000'', image_url = None,
                product_url = Some ''https://www.periplus.com/p/2/book-two'',
                availability = None, category = Some ''new_releases''\<rparr>],
         \<lparr>errors = [], trace = [Get page1_url, Sleep 1, Get page2_url]\<rparr>)"
proof -
  let ?b1 = "\<lparr>title = ''Book One'', author = None, price = Some ''Rp 120,000'', image_url = None,
              product_url = Some ''https://www.periplus.com/p/1/book-one'',
              availability = None, category = Some ''new_releases''\<rparr>"
  let ?b2 = "\<lparr>title = ''Book Two'', author = None, price = Some ''Rp 90,000'', image_url = None,
              product_url = Some ''https://www.periplus.com/p/2/book-two'',
              availability = None, category = Some ''new_releases''\<rparr>"
  let ?wd = "\<lparr>errors = [''Attempt 4 failed for '' @ page1_url @ '': Connection refused''],
              trace = [Get page1_url, Sleep 1, Get page1_url, Sleep 2, Get page1_url, Sleep 4,
                       Get page1_url]\<rparr>"
  let ?wa = "\<lparr>errors = [], trace = [Get page1_url]\<rparr>"
  let ?wb = "\<lparr>errors = [], trace = [Get page1_url, Sleep 1]\<rparr>"
  let ?wc = "\<lparr>errors = [], trace = [Get page1_url, Sleep 1, Get page2_url]\<rparr>"
  let ?next = "Some ''https://www.periplus.com/index.php?route=product/category&anl=103&page=2''"
  have fd: "fetch_page site_down (build_category_url site_down ''103'' 1) None w0 = (None, ?wd)"
    by (simp add: url_site_down fetch_site_down w0_def)
  have fe: "fetch_page site_empty (build_category_url site_empty ''103'' 1) None w0 = (Some ''page'', ?wa)"
    by (simp add: url_site_empty fetch_site_empty w0_def emit_def)
  have pe: "parse_page site_empty ''page'' ''new_releases'' ?wa = (Inr [], ?wa)"
    by (rule parse_site_empty)
  have ne: "get_next_page_url site_empty ''page'' page1_url = Inr ?next"
    by (rule next_site_empty)
  have f1: "fetch_page site_two_pages (build_category_url site_two_pages ''103'' 1) None w0
              = (Some ''page 1'', ?wa)"
    by (simp add: url_two_pages fetch_two_pages_1 w0_def emit_def)
  have p1: "parse_page site_two_pages ''page 1'' ''new_releases'' ?wa = (Inr [?b1], ?wa)"
    by (rule parse_two_pages_1)
  have n1: "get_next_page_url site_two_pages ''page 1'' (build_category_url site_two_pages ''103'' 1)
              = Inr ?next"
    by (rule next_two_pages_1)
  have f2: "fetch_page site_two_pages (build_category_url site_two_pages ''103'' 2) None ?wb
              = (Some ''page 2'', ?wc)"
    by (simp add: url_two_pages fetch_two_pages_2 emit_def)
  have p2: "parse_page site_two_pages ''page 2'' ''new_releases'' ?wc = (Inr [?b2], ?wc)"
    by (rule parse_two_pages_2)
  have n2: "get_next_page_url site_two_pages ''page 2'' (build_category_url site_two_pages ''103'' 2)
              = Inr None"
    by (rule next_two_pages_2)
  have wb: "(if delay_between_requests (scraper_config site_two_pages) > 0
             then emit (Sleep (delay_between_requests (scraper_config site_two_pages))) ?wa
             else ?wa) = ?wb"
    by (simp add: delay_two_pages emit_def)
  have r1: "scrape_pages site_two_pages ''new_releases'' ''103'' 0 1 [] w0 = (Inr [], w0)"
    using scrape_category_stops
            [where max_pages' = 0 and current_page = 1 and S = site_two_pages
               and cn = "''new_releases''" and cp = "''103''" and acc = "[]" and w = w0]
    by simp
  have r2: "scrape_pages site_down ''new_releases'' ''103'' 3 1 [] w0 = (Inr [], ?wd)"
    using scrape_category_stops
            [where max_pages' = 3 and current_page = 1 and S = site_down
               and cn = "''new_releases''" and cp = "''103''" and acc = "[]" and w = w0
               and h = None and ?w1.0 = ?wd]
          fd
    by simp
  have r3: "scrape_pages site_empty ''new_releases'' ''103'' 3 1 [] w0 = (Inr [], ?wa)"
    using scrape_category_stops
            [where max_pages' = 3 and current_page = 1 and S = site_empty
               and cn = "''new_releases''" and cp = "''103''" and acc = "[]" and w = w0
               and html = "''page''" and ?w1.0 = ?wa and ?w2.0 = ?wa]
          fe pe
    by simp
  have r4: "scrape_pages site_two_pages ''new_releases'' ''103'' 3 2 [?b1] ?wb = (Inr [?b1, ?b2], ?wc)"
    using scrape_category_stops
            [where max_pages' = 3 and current_page = 2 and S = site_two_pages
               and cn = "''new_releases''" and cp = "''103''" and acc = "[?b1]" and w = ?wb
               and html = "''page 2''" and ?w1.0 = ?wc and ?w2.0 = ?wc and page_books = "[?b2]"
               and nx = None]
          f2 p2 n2
    by simp
  have r5: "scrape_category site_two_pages ''new_releases'' ''103'' (Some 3) w0 = (Inr [?b1, ?b2], ?wc)"
    using scrape_category_stops
            [where S = site_two_pages and cn = "''new_releases''" and cp = "''103''" and v = w0
               and ?html1.0 = "''page 1''" and ?v1.0 = ?wa and ?books1.0 = "[?b1]" and ?v2.0 = ?wa
               and ?n1.0 = ?next and ?html2.0 = "''page 2''" and ?v3.0 = ?wc and ?books2.0 = "[?b2]"
               and ?v4.0 = ?wc and ?n2.0 = None]
          f1 p1 n1 f2 p2 n2 wb
    by simp
  show ?thesis
    using r1 fd r2 fe pe ne r3 f1 p1 n1 f2 p2 n2 r4 r5
    by (intro conjI)
qed

text \<open>
  C8 fails on the code. The sleep between pages comes after \<^verbatim>\<open>current_page += 1\<close> and
  before the loop tests \<^verbatim>\<open>current_page <= max_pages\<close> again. With \<open>max_pages = 1\<close>, a
  delay of one second, and a first page that shows a book and a next link (the settings
  of \<^verbatim>\<open>demo.py\<close>), the walk fetches page 1, sleeps one second, and returns: the sleep
  follows the last page of the walk and no request follows the sleep.
\<close>

theorem scrape_category_sleeps_after_last_page:
  "scrape_category site_endless ''new_releases'' ''103'' (Some 1) w0 =
     (Inr [\<lparr>title = ''Book One'', author = None, price = Some ''Rp 120,000'', image_url = None,
             product_url = Some ''https://www.periplus.com/p/1/book-one'',
             availability = None, category = Some ''new_releases''\<rparr>],
      \<lparr>errors = [], trace = [Get page1_url, Sleep 1]\<rparr>)"
proof -
  let ?S = "site_endless"
  have f: "fetch_page ?S (build_category_url ?S ''103'' 1) None w0 = (Some ''page'', emit (Get page1_url) w0)"
    unfolding site_endless_def build_url_1
    by (rule fetch_page_200) (simp_all add: site_fields)
  have p: "parse_page ?S ''page'' ''new_releases'' (emit (Get page1_url) w0) =
     (Inr [\<lparr>title = ''Book One'', author = None, price = Some ''Rp 120,000'', image_url = None,
             product_url = Some ''https://www.periplus.com/p/1/book-one'',
             availability = None, category = Some ''new_releases''\<rparr>], emit (Get page1_url) w0)"
    unfolding site_endless_def by (rule parse_page_one) simp
  have n: "get_next_page_url ?S ''page'' (build_category_url ?S ''103'' 1) =
           Inr (Some ''https://www.periplus.com/index.php?route=product/category&anl=103&page=2'')"
    unfolding site_endless_def by (rule next_of_listing) simp
  have d: "delay_between_requests (scraper_config ?S) = 1"
    by (simp add: site_endless_def site_fields)
  have "scrape_pages ?S ''new_releases'' ''103'' 1 1 [] w0 =
        scrape_pages ?S ''new_releases'' ''103'' 1 (1 + 1)
          ([] @ [\<lparr>title = ''Book One'', author = None, price = Some ''Rp 120,000'', image_url = None,
             product_url = Some ''https://www.periplus.com/p/1/book-one'',
             availability = None, category = Some ''new_releases''\<rparr>])
          (if delay_between_requests (scraper_config ?S) > 0
           then emit (Sleep (delay_between_requests (scraper_config ?S))) (emit (Get page1_url) w0)
           else emit (Get page1_url) w0)"
    by (rule scrape_pages_continue [OF _ f _ p _ n]) simp_all
  then show ?thesis
    by (simp add: scrape_category_def d scrape_pages_done emit_def w0_def)
qed

section \<open>The multi-category orchestrator\<close>

lemma update_fresh: "k \<notin> fst ` set al \<Longrightarrow> AList.update k v al = al @ [(k, v)]"
  by (induction al) auto

lemma await_tasks_step:
  "await_tasks ((n, t) # rest) res w =
     await_tasks rest (AList.update n (fst (settle n (t w))) res) (snd (settle n (t w)))"
  by (simp add: settle_def split: prod.splits sum.splits)

lemma await_tasks_append:
  "await_tasks (xs @ ys) res w =
     await_tasks ys (fst (await_tasks xs res w)) (snd (await_tasks xs res w))"
proof (induction xs arbitrary: res w)
  case Nil
  show ?case by simp
next
  case (Cons a xs)
  obtain n t where a: "a = (n, t)" by (cases a)
  show ?case unfolding a append_Cons await_tasks_step by (rule Cons.IH)
qed

lemma await_tasks_world:
  "snd (await_tasks ts res w) = snd (await_tasks ts res' w)"
proof (induction ts arbitrary: res res' w)
  case Nil
  show ?case by simp
next
  case (Cons a ts)
  obtain n t where a: "a = (n, t)" by (cases a)
  show ?case unfolding a await_tasks_step by (rule Cons.IH)
qed

lemma await_tasks_keys:
  "distinct (map fst res @ map fst ts) \<Longrightarrow>
   map fst (fst (await_tasks ts res w)) = map fst res @ map fst ts"
proof (induction ts arbitrary: res w)
  case Nil
  show ?case by simp
next
  case (Cons a ts)
  obtain n t where a: "a = (n, t)" by (cases a)
  from Cons.prems a have fresh: "n \<notin> fst ` set res" by auto
  let ?res = "AList.update n (fst (settle n (t w))) res"
  have res: "?res = res @ [(n, fst (settle n (t w)))]" using fresh by (rule update_fresh)
  have "distinct (map fst ?res @ map fst ts)" using Cons.prems a by (simp add: res)
  then have "map fst (fst (await_tasks ts ?res (snd (settle n (t w))))) = map fst ?res @ map fst ts"
    by (rule Cons.IH)
  then show ?case unfolding a await_tasks_step by (simp add: res)
qed

lemma await_tasks_lookup_other:
  "n \<notin> fst ` set ts \<Longrightarrow> map_of (fst (await_tasks ts res w)) n = map_of res n"
proof (induction ts arbitrary: res w)
  case Nil
  show ?case by simp
next
  case (Cons a ts)
  obtain m t where a: "a = (m, t)" by (cases a)
  from Cons.prems a have "n \<noteq> m" "n \<notin> fst ` set ts" by auto
  then show ?case unfolding a await_tasks_step by (simp add: Cons.IH update_conv')
qed

lemma tasks_names: "fst \<circ> (\<lambda>(n, p). (n, f n p)) = fst"
  by (auto simp: fun_eq_iff)


subsection \<open>The mixed site, walked\<close>

lemma scrape_pages_parse_raises:
  assumes "current_page \<le> max_pages'"
    and "fetch_page S (build_category_url S cp current_page) None w = (Some html, w1)"
    and "html \<noteq> []"
    and "parse_page S html cn w1 = (Inl e, w2)"
  shows "scrape_pages S cn cp max_pages' current_page acc w = (Inl e, w2)"
  using assms by (subst scrape_pages.simps) simp

lemma url_mixed:
  "build_category_url site_mixed ''a'' 1 = category_a_url"
  "build_category_url site_mixed ''b'' 1 = category_b_url"
  by (simp_all add: build_category_url_def site_mixed_def site_defs category_a_url_def
        category_b_url_def)

lemma category_urls_differ: "category_b_url \<noteq> category_a_url"
  by (simp add: category_a_url_def category_b_url_def)

lemma walk_mixed_a:
  "scrape_category site_mixed ''A'' ''a'' (Some 1) w =
     (Inl (LibraryError ''markup rejected''), emit (Get category_a_url) w)"
proof -
  let ?w1 = "emit (Get category_a_url) w"
  have f: "fetch_page site_mixed category_a_url None w = (Some ''garbage'', ?w1)"
    unfolding site_mixed_def by (rule fetch_page_200) (simp_all add: site_fields)
  have p: "parse_page site_mixed ''garbage'' ''A'' ?w1 = (Inl (LibraryError ''markup rejected''), ?w1)"
    by (simp add: parse_page_def site_mixed_def site_def)
  have "scrape_pages site_mixed ''A'' ''a'' 1 1 [] w = (Inl (LibraryError ''markup rejected''), ?w1)"
    by (rule scrape_pages_parse_raises [where html = "''garbage''" and ?w1.0 = ?w1])
       (simp_all add: url_mixed f p)
  then show ?thesis by (simp add: scrape_category_def)
qed

lemma walk_mixed_b:
  "scrape_category site_mixed ''B'' ''b'' (Some 1) w =
     (Inr [\<lparr>title = ''Book Two'', author = None, price = Some ''Rp 90,000'', image_url = None,
             product_url = Some ''https://www.periplus.com/p/2/book-two'',
             availability = None, category = Some ''B''\<rparr>], emit (Get category_b_url) w)"
proof -
  let ?w1 = "emit (Get category_b_url) w"
  let ?b = "\<lparr>title = ''Book Two'', author = None, price = Some ''Rp 90,000'', image_url = None,
             product_url = Some ''https://www.periplus.com/p/2/book-two'',
             availability = None, category = Some ''B''\<rparr>"
  have f: "fetch_page site_mixed category_b_url None w = (Some ''page'', ?w1)"
    unfolding site_mixed_def
    by (rule fetch_page_200) (simp_all add: site_fields category_urls_differ)
  have p: "parse_page site_mixed ''page'' ''B'' ?w1 = (Inr [?b], ?w1)"
    unfolding site_mixed_def by (rule parse_page_two) simp
  have n: "get_next_page_url site_mixed ''page'' category_b_url = Inr None"
    unfolding site_mixed_def by (rule no_next_of_listing) simp
  have "scrape_pages site_mixed ''B'' ''b'' 1 1 [] w = (Inr ([] @ [?b]), ?w1)"
    by (rule scrape_pages_no_next [where html = "''page''" and ?w1.0 = ?w1 and nx = None])
       (simp_all add: url_mixed f p n)
  then show ?thesis by (simp add: scrape_category_def)
qed

lemma walk_mixed_all:
  "scrape_multiple_categories site_mixed [(''A'', ''a''), (''B'', ''b'')] (Some 1) w0 =
     ([(''A'', []),
       (''B'', [\<lparr>title = ''Book Two'', author = None, price = Some ''Rp 90,000'', image_url = None,
                 product_url = Some ''https://www.periplus.com/p/2/book-two'',
                 availability = None, category = Some ''B''\<rparr>])],
      \<lparr>errors = [''Error scraping category A: markup rejected''],
        trace = [Get category_a_url, Get category_b_url]\<rparr>)"
  by (simp add: scrape_multiple_categories_def walk_mixed_a walk_mixed_b emit_def append_error_def
        w0_def)


text \<open>
  C9. For a dictionary of categories (distinct names), the result of
  \<^verbatim>\<open>scrape_multiple_categories\<close> has the same names in the same order. The categories
  are walked one after the other in that order: the walk of a category starts in the
  world left by the categories before it. When its walk returns, the category's entry is
  what the walk returned; when its walk raises, the entry is the empty list and the
  message \<^verbatim>\<open>Error scraping category <name>: <exception>\<close> is appended to the error list.
  In both cases the categories after it are then walked from the resulting world, as if
  they had been called alone.
\<close>

theorem scrape_multiple_categories_isolated:
  assumes "distinct (map fst categories)"
  shows "map fst (fst (scrape_multiple_categories S categories max_pages' w)) = map fst categories
    \<and> (categories = pre @ (category_name, category_param) # post
       \<longrightarrow> (\<forall>books' w2.
              scrape_category S category_name category_param max_pages'
                (snd (scrape_multiple_categories S pre max_pages' w)) = (Inr books', w2)
              \<longrightarrow> map_of (fst (scrape_multiple_categories S categories max_pages' w)) category_name
                    = Some books'
                  \<and> snd (scrape_multiple_categories S categories max_pages' w)
                    = snd (scrape_multiple_categories S post max_pages' w2))
         \<and> (\<forall>e w2.
              scrape_category S category_name category_param max_pages'
                (snd (scrape_multiple_categories S pre max_pages' w)) = (Inl e, w2)
              \<longrightarrow> map_of (fst (scrape_multiple_categories S categories max_pages' w)) category_name
                    = Some []
                  \<and> snd (scrape_multiple_categories S categories max_pages' w)
                    = snd (scrape_multiple_categories S post max_pages'
                             (append_error (''Error scraping category '' @ category_name @ '': ''
                                              @ str_exn e) w2))))"
proof (intro conjI impI)
  let ?task = "\<lambda>(n, p). (n, scrape_category S n p max_pages')"
  show "map fst (fst (scrape_multiple_categories S categories max_pages' w)) = map fst categories"
    using await_tasks_keys [of "[]" "map ?task categories" w] assms
    by (simp add: scrape_multiple_categories_def tasks_names)
  assume split: "categories = pre @ (category_name, category_param) # post"
  let ?w1 = "snd (scrape_multiple_categories S pre max_pages' w)"
  let ?res1 = "fst (await_tasks (map ?task pre) [] w)"
  let ?out = "settle category_name (scrape_category S category_name category_param max_pages' ?w1)"
  have w1: "?w1 = snd (await_tasks (map ?task pre) [] w)"
    by (simp add: scrape_multiple_categories_def)
  have run: "await_tasks (map ?task categories) [] w =
             await_tasks (map ?task post) (AList.update category_name (fst ?out) ?res1) (snd ?out)"
  proof -
    have "map ?task categories =
            map ?task pre
            @ (category_name, scrape_category S category_name category_param max_pages')
              # map ?task post"
      by (simp add: split)
    then show ?thesis
      by (simp only: await_tasks_append await_tasks_step w1)
  qed
  have fresh: "category_name \<notin> fst ` set (map ?task post)"
    using assms unfolding split by (auto simp: image_iff)
  have look: "map_of (fst (scrape_multiple_categories S categories max_pages' w)) category_name
                = Some (fst ?out)"
    unfolding scrape_multiple_categories_def Let_def run
    using await_tasks_lookup_other [OF fresh] by (simp add: update_conv')
  have world: "snd (scrape_multiple_categories S categories max_pages' w)
                = snd (scrape_multiple_categories S post max_pages' (snd ?out))"
    unfolding scrape_multiple_categories_def Let_def run
    by (rule await_tasks_world)
  show "\<forall>books' w2.
          scrape_category S category_name category_param max_pages' ?w1 = (Inr books', w2)
          \<longrightarrow> map_of (fst (scrape_multiple_categories S categories max_pages' w)) category_name
                = Some books'
              \<and> snd (scrape_multiple_categories S categories max_pages' w)
                = snd (scrape_multiple_categories S post max_pages' w2)"
    using look world by (auto simp: settle_def)
  show "\<forall>e w2.
          scrape_category S category_name category_param max_pages' ?w1 = (Inl e, w2)
          \<longrightarrow> map_of (fst (scrape_multiple_categories S categories max_pages' w)) category_name
                = Some []
              \<and> snd (scrape_multiple_categories S categories max_pages' w)
                = snd (scrape_multiple_categories S post max_pages'
                         (append_error (''Error scraping category '' @ category_name @ '': ''
                                          @ str_exn e) w2))"
    using look world by (auto simp: settle_def)
qed

theorem scrape_multiple_categories_isolated_witness:
  "distinct (map fst [(''A'', ''a''), (''B'', ''b'')])
   \<and> map fst (fst (scrape_multiple_categories site_mixed [(''A'', ''a''), (''B'', ''b'')] (Some 1) w0))
       = [''A'', ''B'']
   \<and> scrape_category site_mixed ''A'' ''a'' (Some 1)
        (snd (scrape_multiple_categories site_mixed [] (Some 1) w0))
       = (Inl (LibraryError ''markup rejected''), \<lparr>errors = [], trace = [Get category_a_url]\<rparr>)
   \<and> map_of (fst (scrape_multiple_categories site_mixed [(''A'', ''a''), (''B'', ''b'')] (Some 1) w0))
        ''A'' = Some []
   \<and> snd (scrape_multiple_categories site_mixed [(''A'', ''a''), (''B'', ''b'')] (Some 1) w0)
       = snd (scrape_multiple_categories site_mixed [(''B'', ''b'')] (Some 1)
                \<lparr>errors = [''Error scraping category A: markup rejected''],
                  trace = [Get category_a_url]\<rparr>)
   \<and> scrape_category site_mixed ''B'' ''b'' (Some 1)
        (snd (scrape_multiple_categories site_mixed [(''A'', ''a'')] (Some 1) w0))
       = (Inr [\<lparr>title = ''Book Two'', author = None, price = Some ''Rp 90,000'', image_url = None,
                 product_url = Some ''https://www.periplus.com/p/2/book-two'',
                 availability = None, category = Some ''B''\<rparr>],
          \<lparr>errors = [''Error scraping category A: markup rejected''],
            trace = [Get category_a_url, Get category_b_url]\<rparr>)
   \<and> map_of (fst (scrape_multiple_categories site_mixed [(''A'', ''a''), (''B'', ''b'')] (Some 1) w0))
        ''B''
       = Some [\<lparr>title = ''Book Two'', author = None, price = Some ''Rp 90,000'', image_url = None,
                 product_url = Some ''https://www.periplus.com/p/2/book-two'',
                 availability = None, category = Some ''B''\<rparr>]"
proof -
  let ?cats = "[(''A'', ''a''), (''B'', ''b'')]"
  let ?b = "\<lparr>title = ''Book Two'', author = None, price = Some ''Rp 90,000'', image_url = None,
             product_url = Some ''https://www.periplus.com/p/2/book-two'',
             availability = None, category = Some ''B''\<rparr>"
  let ?wa = "\<lparr>errors = [], trace = [Get category_a_url]\<rparr>"
  let ?we = "\<lparr>errors = [''Error scraping category A: markup rejected''],
               trace = [Get category_a_url]\<rparr>"
  let ?wb = "\<lparr>errors = [''Error scraping category A: markup rejected''],
               trace = [Get category_a_url, Get category_b_url]\<rparr>"
  have d: "distinct (map fst ?cats)" by simp
  have pre_a: "snd (scrape_multiple_categories site_mixed [] (Some 1) w0) = w0"
    by (simp add: scrape_multiple_categories_def)
  have pre_b: "snd (scrape_multiple_categories site_mixed [(''A'', ''a'')] (Some 1) w0) = ?we"
    by (simp add: scrape_multiple_categories_def walk_mixed_a emit_def append_error_def w0_def)
  have wa: "scrape_category site_mixed ''A'' ''a'' (Some 1)
              (snd (scrape_multiple_categories site_mixed [] (Some 1) w0))
            = (Inl (LibraryError ''markup rejected''), ?wa)"
    unfolding pre_a by (simp add: walk_mixed_a emit_def w0_def)
  have wb: "scrape_category site_mixed ''B'' ''b'' (Some 1)
              (snd (scrape_multiple_categories site_mixed [(''A'', ''a'')] (Some 1) w0))
            = (Inr [?b], ?wb)"
    unfolding pre_b by (simp add: walk_mixed_b emit_def)
  note thm_a = scrape_multiple_categories_isolated
                 [OF d, where pre = "[]" and category_name = "''A''" and category_param = "''a''"
                    and post = "[(''B'', ''b'')]" and S = site_mixed and max_pages' = "Some 1"
                    and w = w0]
  note thm_b = scrape_multiple_categories_isolated
                 [OF d, where pre = "[(''A'', ''a'')]" and category_name = "''B''"
                    and category_param = "''b''" and post = "[]" and S = site_mixed
                    and max_pages' = "Some 1" and w = w0]
  have keys: "map fst (fst (scrape_multiple_categories site_mixed ?cats (Some 1) w0)) = [''A'', ''B'']"
    using thm_a by simp
  have ra: "map_of (fst (scrape_multiple_categories site_mixed ?cats (Some 1) w0)) ''A'' = Some []
            \<and> snd (scrape_multiple_categories site_mixed ?cats (Some 1) w0)
              = snd (scrape_multiple_categories site_mixed [(''B'', ''b'')] (Some 1) ?we)"
    using thm_a wa by (simp add: append_error_def)
  have rb: "map_of (fst (scrape_multiple_categories site_mixed ?cats (Some 1) w0)) ''B'' = Some [?b]"
    using thm_b wb by simp
  show ?thesis using d keys wa ra wb rb by (intro conjI) simp_all
qed

section \<open>The result aggregator\<close>

lemma run_scraper_Inr:
  assumes "run_scraper S cn mp w = (Inr rep, w')"
  shows "total_books rep = int (length (books rep))"
    and "success rep = (0 < length (books rep))"
    and "pages_scraped rep = min (requested_max_pages S mp) (int (length (books rep)) div 20 + 1)"
  using assms
  by (auto simp: run_scraper_def Let_def split: prod.splits sum.splits option.splits)

lemma run_scraper_after_empty_walk:
  assumes "scrape_category S cn
             (case map_of (category_params (site_config S)) cn of Some p \<Rightarrow> p | None \<Rightarrow> cn)
             mp w = (Inr [], w1)"
  shows "\<forall>r v. run_scraper S cn mp w = (Inr r, v)
                 \<longrightarrow> books r = [] \<and> total_books r = 0 \<and> \<not> success r"
    and "(\<exists>r v. run_scraper S cn mp w = (Inr r, v))
         \<or> (\<exists>e r w1 v. save_results S r w1 = (Some e, v) \<and> run_scraper S cn mp w = (Inl e, v))"
proof -
  let ?result = "\<lparr>site_name = name (site_config S), result_category = cn, total_books = 0,
                   pages_scraped = min (requested_max_pages S mp) 1, books = [],
                   success = False, result_errors = errors w1\<rparr>"
  obtain o' w2 where sv: "save_results S ?result w1 = (o', w2)"
    by (cases "save_results S ?result w1")
  have run: "run_scraper S cn mp w =
               (case o' of Some e \<Rightarrow> (Inl e, w2) | None \<Rightarrow> (Inr ?result, w2))"
    using assms sv by (simp add: run_scraper_def Let_def split: option.splits)
  show "\<forall>r v. run_scraper S cn mp w = (Inr r, v)
                 \<longrightarrow> books r = [] \<and> total_books r = 0 \<and> \<not> success r"
    unfolding run by (cases o') auto
  show "(\<exists>r v. run_scraper S cn mp w = (Inr r, v))
         \<or> (\<exists>e r w1 v. save_results S r w1 = (Some e, v) \<and> run_scraper S cn mp w = (Inl e, v))"
  proof (cases o')
    case None
    then show ?thesis by (simp add: run)
  next
    case (Some e)
    then have "save_results S ?result w1 = (Some e, w2) \<and> run_scraper S cn mp w = (Inl e, w2)"
      using sv by (simp add: run)
    then show ?thesis by blast
  qed
qed

lemma scrape_category_page1_failed:
  assumes "\<not> truthy (fst (fetch_page S (build_category_url S cp 1) None w))"
  shows "\<exists>w1. scrape_category S cn cp mp w = (Inr [], w1)"
proof -
  let ?m = "case mp of None \<Rightarrow> max_pages (scraper_config S) | Some m \<Rightarrow> m"
  obtain h w1 where f: "fetch_page S (build_category_url S cp 1) None w = (h, w1)"
    by (cases "fetch_page S (build_category_url S cp 1) None w")
  show ?thesis
  proof (cases "1 \<le> ?m")
    case True
    then have "scrape_pages S cn cp ?m 1 [] w = (Inr [], w1)"
      using f assms by (intro scrape_pages_fetch_failed) simp_all
    then show ?thesis by (simp add: scrape_category_def)
  next
    case False
    then have "scrape_pages S cn cp ?m 1 [] w = (Inr [], w)"
      by (intro scrape_pages_done) simp
    then show ?thesis by (simp add: scrape_category_def)
  qed
qed


subsection \<open>The example sites, run\<close>

lemma site_more_fields:
  "name (site_config (site server parser delay)) = ''periplus''"
  "map_of (category_params (site_config (site server parser delay))) ''new_releases'' = Some ''103''"
  "output_format (scraper_config (site server parser delay)) = ''json''"
  "requested_max_pages (site server parser delay) (Some 3) = 3"
  "requested_max_pages (site server parser delay) (Some 5) = 5"
  "requested_max_pages (site server parser delay) None = 5"
  "output_directory (scraper_config (site server parser delay)) = ''output''"
  "write_file (site server parser delay) = site_write_file"
  "clock (site server parser delay) = ''20250101_120000''"
  by (simp_all add: site_def PERIPLUS_CONFIG_def requested_max_pages_def)

lemma run_scraper_site:
  assumes "scrape_category (site server parser delay) ''new_releases'' ''103'' mp w = (Inr bs, w1)"
  shows "run_scraper (site server parser delay) ''new_releases'' mp w =
     (Inr \<lparr>site_name = ''periplus'', result_category = ''new_releases'',
            total_books = int (length bs),
            pages_scraped = min (requested_max_pages (site server parser delay) mp)
                              (if bs \<noteq> [] then int (length bs) div 20 + 1 else 1),
            books = bs, success = (length bs > 0), result_errors = errors w1\<rparr>,
      emit WriteJson w1)"
  using assms
  by (simp add: run_scraper_def site_more_fields save_results_def save_to_json_def
        site_write_file_def Let_def)

lemma walk_two_pages:
  "scrape_category site_two_pages ''new_releases'' ''103'' (Some 3) w0 =
     (Inr [\<lparr>title = ''Book One'', author = None, price = Some ''Rp 120,000'', image_url = None,
             product_url = Some ''https://www.periplus.com/p/1/book-one'',
             availability = None, category = Some ''new_releases''\<rparr>,
           \<lparr>title = ''Book Two'', author = None, price = Some ''Rp 90,000'', image_url = None,
             product_url = Some ''https://www.periplus.com/p/2/book-two'',
             availability = None, category = Some ''new_releases''\<rparr>],
      \<lparr>errors = [], trace = [Get page1_url, Sleep 1, Get page2_url]\<rparr>)"
proof -
  let ?b1 = "\<lparr>title = ''Book One'', author = None, price = Some ''Rp 120,000'', image_url = None,
              product_url = Some ''https://www.periplus.com/p/1/book-one'',
              availability = None, category = Some ''new_releases''\<rparr>"
  let ?b2 = "\<lparr>title = ''Book Two'', author = None, price = Some ''Rp 90,000'', image_url = None,
              product_url = Some ''https://www.periplus.com/p/2/book-two'',
              availability = None, category = Some ''new_releases''\<rparr>"
  let ?S = site_two_pages
  let ?wa = "emit (Get page1_url) w0"
  let ?wb = "emit (Sleep 1) ?wa"
  let ?wc = "emit (Get page2_url) ?wb"
  have "scrape_pages ?S ''new_releases'' ''103'' 3 1 [] w0 =
        scrape_pages ?S ''new_releases'' ''103'' 3 (1 + 1) ([] @ [?b1])
          (if delay_between_requests (scraper_config ?S) > 0
           then emit (Sleep (delay_between_requests (scraper_config ?S))) ?wa else ?wa)"
    by (rule scrape_pages_continue
              [where html = "''page 1''" and ?w1.0 = ?wa
                 and nx = "Some ''https://www.periplus.com/index.php?route=product/category&anl=103&page=2''"])
       (simp_all add: url_two_pages fetch_two_pages_1 parse_two_pages_1 next_two_pages_1)
  also have "\<dots> = scrape_pages ?S ''new_releases'' ''103'' 3 2 [?b1] ?wb"
    by (simp add: delay_two_pages)
  also have "\<dots> = (Inr ([?b1] @ [?b2]), ?wc)"
    by (rule scrape_pages_no_next [where html = "''page 2''" and ?w1.0 = ?wc and nx = None])
       (simp_all add: url_two_pages fetch_two_pages_2 parse_two_pages_2 next_two_pages_2)
  finally show ?thesis
    by (simp add: scrape_category_def emit_def w0_def)
qed

lemma walk_site_down:
  "scrape_category site_down ''new_releases'' ''103'' None w0 =
     (Inr [], \<lparr>errors = [''Attempt 4 failed for '' @ page1_url @ '': Connection refused''],
               trace = [Get page1_url, Sleep 1, Get page1_url, Sleep 2, Get page1_url, Sleep 4,
                        Get page1_url]\<rparr>)"
proof -
  have "scrape_pages site_down ''new_releases'' ''103'' 5 1 [] w0 =
          (Inr [], snd (fetch_page site_down page1_url None w0))"
    by (rule scrape_pages_fetch_failed [where h = None])
       (simp_all add: url_site_down fetch_site_down)
  then show ?thesis
    by (simp add: scrape_category_def site_down_def site_fields fetch_site_down [unfolded site_down_def] w0_def)
qed

lemma parse_books_replicate:
  "parse_books (site server parser delay) (replicate n book_two) cat acc w =
     (acc @ replicate n \<lparr>title = ''Book Two'', author = None, price = Some ''Rp 90,000'',
                          image_url = None,
                          product_url = Some ''https://www.periplus.com/p/2/book-two'',
                          availability = None, category = Some cat\<rparr>, w)"
proof (induction n arbitrary: acc)
  case 0
  show ?case by simp
next
  case (Suc n)
  show ?case by (simp add: parse_book_two Suc.IH replicate_app_Cons_same)
qed

lemma parse_page_replicate:
  assumes "parser html = Inr (listing (replicate n book_two) nexts)"
  shows "parse_page (site server parser delay) html cat w =
     (Inr (replicate n \<lparr>title = ''Book Two'', author = None, price = Some ''Rp 90,000'',
                          image_url = None,
                          product_url = Some ''https://www.periplus.com/p/2/book-two'',
                          availability = None, category = Some cat\<rparr>), w)"
proof -
  have "BeautifulSoup (site server parser delay) html = Inr (listing (replicate n book_two) nexts)"
    using assms by (simp add: site_def)
  then show ?thesis
    by (simp add: parse_page_def selector_site select_listing actual_book_two parse_books_replicate)
qed

lemma walk_site_twenty:
  "scrape_category site_twenty ''new_releases'' ''103'' (Some 5) w0 =
     (Inr (replicate 20 \<lparr>title = ''Book Two'', author = None, price = Some ''Rp 90,000'',
                          image_url = None,
                          product_url = Some ''https://www.periplus.com/p/2/book-two'',
                          availability = None, category = Some ''new_releases''\<rparr>),
      \<lparr>errors = [], trace = [Get page1_url]\<rparr>)"
proof -
  let ?b = "\<lparr>title = ''Book Two'', author = None, price = Some ''Rp 90,000'',
                          image_url = None,
                          product_url = Some ''https://www.periplus.com/p/2/book-two'',
                          availability = None, category = Some ''new_releases''\<rparr>"
  let ?wa = "emit (Get page1_url) w0"
  have u: "build_category_url site_twenty ''103'' 1 = page1_url"
    unfolding site_twenty_def by (rule build_url_1)
  have f: "fetch_page site_twenty page1_url None w0 = (Some ''page'', ?wa)"
    unfolding site_twenty_def by (rule fetch_page_200) (simp_all add: site_fields)
  have p: "parse_page site_twenty ''page'' ''new_releases'' ?wa = (Inr (replicate 20 ?b), ?wa)"
    unfolding site_twenty_def by (rule parse_page_replicate) simp
  have n: "get_next_page_url site_twenty ''page'' page1_url = Inr None"
    unfolding site_twenty_def by (rule no_next_of_listing) simp
  have "scrape_pages site_twenty ''new_releases'' ''103'' 5 1 [] w0 = (Inr ([] @ replicate 20 ?b), ?wa)"
    by (rule scrape_pages_no_next [where html = "''page''" and ?w1.0 = ?wa and nx = None])
       (simp_all add: u f p n)
  then show ?thesis
    by (simp add: scrape_category_def emit_def w0_def)
qed

lemma run_two_pages:
  "run_scraper site_two_pages ''new_releases'' (Some 3) w0 =
     (Inr \<lparr>site_name = ''periplus'', result_category = ''new_releases'', total_books = 2,
            pages_scraped = 1,
            books = [\<lparr>title = ''Book One'', author = None, price = Some ''Rp 120,000'',
                       image_url = None,
                       product_url = Some ''https://www.periplus.com/p/1/book-one'',
                       availability = None, category = Some ''new_releases''\<rparr>,
                     \<lparr>title = ''Book Two'', author = None, price = Some ''Rp 90,000'',
                       image_url = None,
                       product_url = Some ''https://www.periplus.com/p/2/book-two'',
                       availability = None, category = Some ''new_releases''\<rparr>],
            success = True, result_errors = []\<rparr>,
      \<lparr>errors = [], trace = [Get page1_url, Sleep 1, Get page2_url, WriteJson]\<rparr>)"
  using run_scraper_site [OF walk_two_pages [unfolded site_two_pages_def]]
  by (simp add: site_two_pages_def site_more_fields emit_def)

lemma run_site_down:
  "run_scraper site_down ''new_releases'' None w0 =
     (Inr \<lparr>site_name = ''periplus'', result_category = ''new_releases'', total_books = 0,
            pages_scraped = 1, books = [], success = False,
            result_errors = [''Attempt 4 failed for '' @ page1_url @ '': Connection refused'']\<rparr>,
      \<lparr>errors = [''Attempt 4 failed for '' @ page1_url @ '': Connection refused''],
        trace = [Get page1_url, Sleep 1, Get page1_url, Sleep 2, Get page1_url, Sleep 4,
                 Get page1_url, WriteJson]\<rparr>)"
  using run_scraper_site [OF walk_site_down [unfolded site_down_def]]
  by (simp add: site_down_def site_more_fields emit_def)

lemma run_site_twenty:
  "run_scraper site_twenty ''new_releases'' (Some 5) w0 =
     (Inr \<lparr>site_name = ''periplus'', result_category = ''new_releases'', total_books = 20,
            pages_scraped = 2,
            books = replicate 20 \<lparr>title = ''Book Two'', author = None, price = Some ''Rp 90,000'',
                       image_url = None,
                       product_url = Some ''https://www.periplus.com/p/2/book-two'',
                       availability = None, category = Some ''new_releases''\<rparr>,
            success = True, result_errors = []\<rparr>,
      \<lparr>errors = [], trace = [Get page1_url, WriteJson]\<rparr>)"
  using run_scraper_site [OF walk_site_twenty [unfolded site_twenty_def]]
  by (simp add: site_twenty_def site_more_fields emit_def)


lemma run_site_down_no_directory:
  "run_scraper site_down ''a/b'' None w0 =
     (Inl (LibraryError ''[Errno 2] No such file or directory''),
      snd (fetch_page site_down (build_category_url site_down ''a/b'' 1) None w0))"
proof -
  let ?url = "build_category_url site_down ''a/b'' 1"
  have "scrape_pages site_down ''a/b'' ''a/b'' 5 1 [] w0
          = (Inr [], snd (fetch_page site_down ?url None w0))"
    by (rule scrape_pages_fetch_failed [where h = None]) (simp_all add: fetch_site_down)
  then have "scrape_category site_down ''a/b'' ''a/b'' None w0
               = (Inr [], snd (fetch_page site_down ?url None w0))"
    by (simp add: scrape_category_def site_down_def site_fields)
  then show ?thesis
    by (simp add: run_scraper_def site_down_def site_def PERIPLUS_CONFIG_def save_results_def
          save_to_json_def site_write_file_def Let_def)
qed

text \<open>
  C5. In every result that \<^verbatim>\<open>run_scraper\<close> returns, \<^verbatim>\<open>total_books\<close> is the length of
  the book list and \<^verbatim>\<open>success\<close> says whether that length is positive. When the fetch of
  page 1 fails (\<^verbatim>\<open>None\<close> or an empty body), the walk returns the empty list, and every
  result that \<^verbatim>\<open>run_scraper\<close> then returns has no books, \<^verbatim>\<open>total_books = 0\<close> and
  \<^verbatim>\<open>success = False\<close>; it returns such a result unless \<^verbatim>\<open>save_results\<close> raises.
\<close>

theorem run_scraper_totals:
  "(run_scraper S cn mp w = (Inr rep, w')
      \<longrightarrow> total_books rep = int (length (books rep)) \<and> success rep = (0 < length (books rep)))
   \<and> (\<not> truthy (fst (fetch_page S
                        (build_category_url S
                           (case map_of (category_params (site_config S)) cn of
                              Some p \<Rightarrow> p | None \<Rightarrow> cn) 1)
                        None w))
      \<longrightarrow> (\<exists>w1. scrape_category S cn
                   (case map_of (category_params (site_config S)) cn of
                      Some p \<Rightarrow> p | None \<Rightarrow> cn) mp w = (Inr [], w1))
          \<and> (\<forall>r v. run_scraper S cn mp w = (Inr r, v)
                     \<longrightarrow> books r = [] \<and> total_books r = 0 \<and> \<not> success r)
          \<and> ((\<exists>r v. run_scraper S cn mp w = (Inr r, v))
              \<or> (\<exists>e r w1 v. save_results S r w1 = (Some e, v)
                              \<and> run_scraper S cn mp w = (Inl e, v))))"
proof (intro conjI impI)
  assume "run_scraper S cn mp w = (Inr rep, w')"
  then show "total_books rep = int (length (books rep))"
    and "success rep = (0 < length (books rep))"
    by (rule run_scraper_Inr)+
next
  let ?cp = "case map_of (category_params (site_config S)) cn of Some p \<Rightarrow> p | None \<Rightarrow> cn"
  assume a: "\<not> truthy (fst (fetch_page S (build_category_url S ?cp 1) None w))"
  then obtain w1 where w1: "scrape_category S cn ?cp mp w = (Inr [], w1)"
    using scrape_category_page1_failed by blast
  then show "\<exists>w1. scrape_category S cn ?cp mp w = (Inr [], w1)" by blast
  from w1 show "\<forall>r v. run_scraper S cn mp w = (Inr r, v)
                       \<longrightarrow> books r = [] \<and> total_books r = 0 \<and> \<not> success r"
    by (rule run_scraper_after_empty_walk)
  from w1 show "(\<exists>r v. run_scraper S cn mp w = (Inr r, v))
              \<or> (\<exists>e r w1 v. save_results S r w1 = (Some e, v)
                              \<and> run_scraper S cn mp w = (Inl e, v))"
    by (rule run_scraper_after_empty_walk)
qed

theorem run_scraper_totals_witness:
  "run_scraper site_two_pages ''new_releases'' (Some 3) w0 =
     (Inr \<lparr>site_name = ''periplus'', result_category = ''new_releases'', total_books = 2,
            pages_scraped = 1,
            books = [\<lparr>title = ''Book One'', author = None, price = Some ''Rp 120,000'',
                       image_url = None,
                       product_url = Some ''https://www.periplus.com/p/1/book-one'',
                       availability = None, category = Some ''new_releases''\<rparr>,
                     \<lparr>title = ''Book Two'', author = None, price = Some ''Rp 90,000'',
                       image_url = None,
                       product_url = Some ''https://www.periplus.com/p/2/book-two'',
                       availability = None, category = Some ''new_releases''\<rparr>],
            success = True, result_errors = []\<rparr>,
      \<lparr>errors = [], trace = [Get page1_url, Sleep 1, Get page2_url, WriteJson]\<rparr>)
   \<and> (2::int) = int (length [1::nat, 2]) \<and> True = (0 < length [1::nat, 2])
   \<and> (case map_of (category_params (site_config site_down)) ''new_releases'' of
         Some p \<Rightarrow> p | None \<Rightarrow> ''new_releases'') = ''103''
   \<and> fst (fetch_page site_down (build_category_url site_down ''103'' 1) None w0) = None
   \<and> \<not> truthy None
   \<and> (\<exists>w1. scrape_category site_down ''new_releases'' ''103'' None w0 = (Inr [], w1))
   \<and> run_scraper site_down ''new_releases'' None w0 =
     (Inr \<lparr>site_name = ''periplus'', result_category = ''new_releases'', total_books = 0,
            pages_scraped = 1, books = [], success = False,
            result_errors = [''Attempt 4 failed for '' @ page1_url @ '': Connection refused'']\<rparr>,
      \<lparr>errors = [''Attempt 4 failed for '' @ page1_url @ '': Connection refused''],
        trace = [Get page1_url, Sleep 1, Get page1_url, Sleep 2, Get page1_url, Sleep 4,
                 Get page1_url, WriteJson]\<rparr>)
   \<and> books \<lparr>site_name = ''periplus'', result_category = ''new_releases'', total_books = 0,
            pages_scraped = 1, books = [], success = False,
            result_errors = [''Attempt 4 failed for '' @ page1_url @ '': Connection refused'']\<rparr>
       = []"
proof -
  let ?rep = "\<lparr>site_name = ''periplus'', result_category = ''new_releases'', total_books = 2,
            pages_scraped = 1,
            books = [\<lparr>title = ''Book One'', author = None, price = Some ''Rp 120,000'',
                       image_url = None,
                       product_url = Some ''https://www.periplus.com/p/1/book-one'',
                       availability = None, category = Some ''new_releases''\<rparr>,
                     \<lparr>title = ''Book Two'', author = None, price = Some ''Rp 90,000'',
                       image_url = None,
                       product_url = Some ''https://www.periplus.com/p/2/book-two'',
                       availability = None, category = Some ''new_releases''\<rparr>],
            success = True, result_errors = []\<rparr>"
  let ?w = "\<lparr>errors = [], trace = [Get page1_url, Sleep 1, Get page2_url, WriteJson]\<rparr>"
  let ?empty = "\<lparr>site_name = ''periplus'', result_category = ''new_releases'', total_books = 0,
            pages_scraped = 1, books = [], success = False,
            result_errors = [''Attempt 4 failed for '' @ page1_url @ '': Connection refused'']\<rparr>"
  let ?wd = "\<lparr>errors = [''Attempt 4 failed for '' @ page1_url @ '': Connection refused''],
        trace = [Get page1_url, Sleep 1, Get page1_url, Sleep 2, Get page1_url, Sleep 4,
                 Get page1_url, WriteJson]\<rparr>"
  have run: "run_scraper site_two_pages ''new_releases'' (Some 3) w0 = (Inr ?rep, ?w)"
    by (rule run_two_pages)
  have down: "run_scraper site_down ''new_releases'' None w0 = (Inr ?empty, ?wd)"
    by (rule run_site_down)
  have cp: "(case map_of (category_params (site_config site_down)) ''new_releases'' of
               Some p \<Rightarrow> p | None \<Rightarrow> ''new_releases'') = ''103''"
    by (simp add: site_down_def site_more_fields)
  have failed: "fst (fetch_page site_down (build_category_url site_down ''103'' 1) None w0) = None"
    by (simp add: fetch_site_down)
  from run_scraper_totals [of site_two_pages "''new_releases''" "Some 3" w0 ?rep ?w] run
  have a: "total_books ?rep = int (length (books ?rep)) \<and> success ?rep = (0 < length (books ?rep))"
    by blast
  from run_scraper_totals [of site_down "''new_releases''" None w0 ?rep ?w] cp failed
  have b: "(\<exists>w1. scrape_category site_down ''new_releases'' ''103'' None w0 = (Inr [], w1))
           \<and> (\<forall>r v. run_scraper site_down ''new_releases'' None w0 = (Inr r, v)
                      \<longrightarrow> books r = [] \<and> total_books r = 0 \<and> \<not> success r)"
    by simp
  then have c: "books ?empty = [] \<and> total_books ?empty = 0 \<and> \<not> success ?empty"
    using down by blast
  show ?thesis using run down cp failed a b c by simp
qed

text \<open>
  C1 fails on the code. The claim is that \<^verbatim>\<open>pages_scraped\<close> is
  \<open>min(requestedMaxPages, ceil(count / 20))\<close>, floored to at least 1. The code computes
  \<open>count div 20 + 1\<close> in place of the ceiling, which is one too many whenever the count
  is a positive multiple of 20: on a site whose only page shows twenty books, with a
  requested maximum of five pages, the walk makes one request and collects twenty books,
  and the result reports two pages, where the claimed value is 1.
\<close>

theorem run_scraper_twenty_books_reports_two_pages:
  "run_scraper site_twenty ''new_releases'' (Some 5) w0 =
     (Inr \<lparr>site_name = ''periplus'', result_category = ''new_releases'', total_books = 20,
            pages_scraped = 2,
            books = replicate 20 \<lparr>title = ''Book Two'', author = None, price = Some ''Rp 90,000'',
                       image_url = None,
                       product_url = Some ''https://www.periplus.com/p/2/book-two'',
                       availability = None, category = Some ''new_releases''\<rparr>,
            success = True, result_errors = []\<rparr>,
      \<lparr>errors = [], trace = [Get page1_url, WriteJson]\<rparr>)
   \<and> spec_pages_estimate 5 20 = 1"
  by (simp add: run_site_twenty spec_pages_estimate_def)

end
